theory Spec2Isabelle
  imports Main "HOL-Library.AList" "HOL-Library.Monad_Syntax"
begin

section \<open>Data model of \<^verbatim>\<open>scripts/generate_monsters.py\<close>\<close>

text \<open>
  A coordinate is a pair of Python integers, a colour a tuple of four (red, green, blue,
  alpha). A Python \<^verbatim>\<open>dict\<close>
  is an association list in insertion order whose keys are distinct: \<^verbatim>\<open>d[k] = v\<close> is
  \<^const>\<open>AList.update\<close> (the value is replaced in place, a new key is appended) and
  iteration runs over the list. A Python \<^verbatim>\<open>set\<close> of coordinates is a list without
  duplicates; the order in which Python iterates over it is not specified, so every
  statement below is about \<^const>\<open>set\<close> of that list.
\<close>

type_synonym coord = "int \<times> int"
datatype color = RGBA int int int int
type_synonym pixel_dict = "(coord \<times> color) list"
type_synonym palette = "(string \<times> color) list"
type_synonym image = "color list list"

text \<open>The palette \<^verbatim>\<open>C\<close> (VS Code Dark+), lines 12 to 36.\<close>

definition C :: palette where
  "C = [
    (''transparent'', RGBA 0 0 0 0),
    (''black'', RGBA 0 0 0 255),
    (''dark_bg'', RGBA 30 30 30 255),
    (''red'', RGBA 244 71 71 255),
    (''dark_red'', RGBA 180 40 40 255),
    (''orange'', RGBA 206 145 120 255),
    (''yellow'', RGBA 220 220 170 255),
    (''green'', RGBA 106 153 85 255),
    (''dark_green'', RGBA 60 100 50 255),
    (''light_green'', RGBA 181 206 168 255),
    (''blue'', RGBA 86 156 214 255),
    (''dark_blue'', RGBA 50 100 160 255),
    (''light_blue'', RGBA 156 220 254 255),
    (''purple'', RGBA 197 134 192 255),
    (''dark_purple'', RGBA 130 80 130 255),
    (''magenta'', RGBA 190 60 160 255),
    (''white'', RGBA 212 212 212 255),
    (''gray'', RGBA 128 128 128 255),
    (''dark_gray'', RGBA 80 80 80 255),
    (''brown'', RGBA 150 100 60 255),
    (''dark_brown'', RGBA 100 65 40 255),
    (''cyan'', RGBA 78 201 176 255),
    (''dark_cyan'', RGBA 50 140 120 255)]"

text \<open>
  \<^verbatim>\<open>P[name]\<close> on a palette: \<^const>\<open>None\<close> is the \<^verbatim>\<open>KeyError\<close> that Python raises for a
  name that is not a key. Nothing in the script catches it.
\<close>

definition lookup :: "palette \<Rightarrow> string \<Rightarrow> color option" where
  "lookup P name = map_of P name"

text \<open>\<^verbatim>\<open>range(a, b)\<close> over Python integers.\<close>

definition py_range :: "int \<Rightarrow> int \<Rightarrow> int list" where
  "py_range a b = [a..b - 1]"

text \<open>
  A \<^verbatim>\<open>for\<close> loop whose body may raise: the state is threaded through the elements in
  order and the first failure ends the loop.
\<close>

fun for_each :: "'a list \<Rightarrow> ('a \<Rightarrow> 's \<Rightarrow> 's option) \<Rightarrow> 's \<Rightarrow> 's option" where
  "for_each [] f s = Some s"
| "for_each (x # xs) f s = (case f x s of None \<Rightarrow> None | Some s' \<Rightarrow> for_each xs f s')"

text \<open>
  \<^verbatim>\<open>xs[i]\<close> on a Python list: indices from \<open>0\<close> count from the front, indices below
  \<open>0\<close> from the back, and any other index raises \<^verbatim>\<open>IndexError\<close>, here \<^const>\<open>None\<close>.
\<close>

definition list_get :: "'a list \<Rightarrow> int \<Rightarrow> 'a option" where
  "list_get xs i =
     (if 0 \<le> i \<and> i < int (length xs) then Some (xs ! nat i)
      else if - int (length xs) \<le> i \<and> i < 0 then Some (xs ! nat (int (length xs) + i))
      else None)"

text \<open>
  The two local variables every generator builds: the dictionary \<^verbatim>\<open>body\<close> and the set
  \<^verbatim>\<open>body_set\<close>.
\<close>

record sprite =
  body :: pixel_dict
  body_set :: "coord list"

definition new_sprite :: sprite where
  "new_sprite = \<lparr>body = [], body_set = []\<rparr>"

text \<open>\<^verbatim>\<open>body[p] = col\<close>, \<^verbatim>\<open>body_set.add(p)\<close>, \<^verbatim>\<open>body_set.update(ps)\<close> and \<^verbatim>\<open>body[p] = P[name]\<close>.\<close>

definition paint :: "coord \<Rightarrow> color \<Rightarrow> sprite \<Rightarrow> sprite" where
  "paint p col s = s\<lparr>body := AList.update p col (body s)\<rparr>"

definition mark :: "coord \<Rightarrow> sprite \<Rightarrow> sprite" where
  "mark p s = s\<lparr>body_set := List.insert p (body_set s)\<rparr>"

definition mark_all :: "coord list \<Rightarrow> sprite \<Rightarrow> sprite" where
  "mark_all ps s = fold mark ps s"

definition put :: "palette \<Rightarrow> coord \<Rightarrow> string \<Rightarrow> sprite \<Rightarrow> sprite option" where
  "put P p name s = do { col \<leftarrow> lookup P name; Some (paint p col s) }"

section \<open>\<^verbatim>\<open>draw_outline\<close>, lines 51 to 59\<close>

definition in_canvas :: "coord \<Rightarrow> bool" where
  "in_canvas p = (0 \<le> fst p \<and> fst p < 32 \<and> 0 \<le> snd p \<and> snd p < 32)"

text \<open>The body of the inner loop, lines 57 and 58, at the neighbour \<open>n = (nx, ny)\<close>.\<close>

definition outline_at :: "coord list \<Rightarrow> color \<Rightarrow> coord \<Rightarrow> pixel_dict \<Rightarrow> pixel_dict" where
  "outline_at body_pixels color n outlined =
     (if n \<notin> set body_pixels \<and> 0 \<le> fst n \<and> fst n < 32 \<and> 0 \<le> snd n \<and> snd n < 32
      then AList.update n color outlined
      else outlined)"

text \<open>The inner loop, lines 55 to 58: the four orthogonal neighbours of \<open>(x, y)\<close>.\<close>

definition outline_around :: "coord list \<Rightarrow> color \<Rightarrow> coord \<Rightarrow> pixel_dict \<Rightarrow> pixel_dict" where
  "outline_around body_pixels color =
     (\<lambda>(x, y). fold (\<lambda>(dx, dy). outline_at body_pixels color (x + dx, y + dy))
                     [(-1, 0), (1, 0), (0, -1), (0, 1)])"

definition draw_outline :: "pixel_dict \<Rightarrow> coord list \<Rightarrow> color \<Rightarrow> pixel_dict" where
  "draw_outline pixels body_pixels color =
     fold (outline_around body_pixels color) body_pixels pixels"

section \<open>\<^verbatim>\<open>make_sprite\<close>, lines 40 to 49\<close>

text \<open>
  The image is a list of rows. \<^verbatim>\<open>Image.new('RGBA', (w, h), c)\<close> fills it with one colour;
  \<^verbatim>\<open>putpixel\<close> replaces one cell and fails outside the grid. Saving the file and printing
  its size are effects outside this model: \<^verbatim>\<open>make_sprite\<close> returns the image it saved.
\<close>

definition Image_new :: "nat \<Rightarrow> nat \<Rightarrow> color \<Rightarrow> image" where
  "Image_new w h c = replicate h (replicate w c)"

definition putpixel :: "coord \<Rightarrow> color \<Rightarrow> image \<Rightarrow> image option" where
  "putpixel p c img =
     (let x = fst p; y = snd p
      in if 0 \<le> y \<and> nat y < length img \<and> 0 \<le> x \<and> nat x < length (img ! nat y)
         then Some (img[nat y := (img ! nat y)[nat x := c]])
         else None)"

definition getpixel :: "image \<Rightarrow> coord \<Rightarrow> color" where
  "getpixel img p = img ! nat (snd p) ! nat (fst p)"

definition make_sprite :: "pixel_dict \<Rightarrow> color \<Rightarrow> image option" where
  "make_sprite pixels_map T =
     for_each pixels_map
       (\<lambda>((x, y), color) img.
          if 0 \<le> x \<and> x < 32 \<and> 0 \<le> y \<and> y < 32 then putpixel (x, y) color img else Some img)
       (Image_new 32 32 T)"

section \<open>The tail shared by the eight generators\<close>

text \<open>\<^verbatim>\<open>d.update(other)\<close>: every item of \<^verbatim>\<open>other\<close> is stored into \<^verbatim>\<open>d\<close>, in order.\<close>

definition dict_update :: "pixel_dict \<Rightarrow> pixel_dict \<Rightarrow> pixel_dict" where
  "dict_update d other = fold (\<lambda>(k, v). AList.update k v) other d"

text \<open>
  \<^verbatim>\<open>pixels = draw_outline(body, body_set)\<close> with the default colour \<^verbatim>\<open>B\<close>, then
  \<^verbatim>\<open>pixels.update(body)\<close>: the dictionary handed to \<^verbatim>\<open>make_sprite\<close>.
\<close>

definition composite :: "sprite \<Rightarrow> color \<Rightarrow> pixel_dict" where
  "composite s B = dict_update (draw_outline (body s) (body_set s) B) (body s)"

section \<open>The generators\<close>

subsection \<open>\<^verbatim>\<open>nullpointer\<close>, lines 61 to 98\<close>

definition nullpointer_fill :: "palette \<Rightarrow> sprite \<Rightarrow> sprite option" where
  "nullpointer_fill P =
     for_each (py_range 8 26) (\<lambda>y.
       let w = (if y < 12 then min ((y - 8) * 2 + 2) 10 else if y < 22 then 10 else 10) in
       for_each (py_range (16 - w div 2) (16 + w div 2)) (\<lambda>x s.
         if y \<ge> 22 \<and> (x + y) mod 3 = 0 then Some s
         else do {
           col \<leftarrow> (if y < 18 then lookup P ''purple'' else lookup P ''dark_purple'');
           Some (mark (x, y) (paint (x, y) col s))
         }))"

definition nullpointer_overlay :: "palette \<Rightarrow> sprite \<Rightarrow> sprite option" where
  "nullpointer_overlay P s = do {
     s \<leftarrow> for_each [13, 14] (\<lambda>x. for_each [14, 15, 16] (\<lambda>y. put P (x, y) ''dark_bg'')) s;
     s \<leftarrow> for_each [18, 19] (\<lambda>x. for_each [14, 15, 16] (\<lambda>y. put P (x, y) ''dark_bg'')) s;
     s \<leftarrow> put P (13, 14) ''light_blue'' s;
     s \<leftarrow> put P (18, 14) ''light_blue'' s;
     s \<leftarrow> put P (14, 20) ''magenta'' s;
     s \<leftarrow> put P (16, 20) ''magenta'' s;
     put P (18, 20) ''magenta'' s
   }"

definition nullpointer_body :: "palette \<Rightarrow> sprite option" where
  "nullpointer_body P = do { s \<leftarrow> nullpointer_fill P new_sprite; nullpointer_overlay P s }"

definition nullpointer :: "palette \<Rightarrow> color \<Rightarrow> color \<Rightarrow> image option" where
  "nullpointer P T B = do { s \<leftarrow> nullpointer_body P; make_sprite (composite s B) T }"

subsection \<open>\<^verbatim>\<open>typemismatch\<close>, lines 100 to 146\<close>

text \<open>The width \<^verbatim>\<open>w\<close> of row \<open>y\<close>, lines 106 to 111.\<close>

definition typemismatch_w :: "int \<Rightarrow> int" where
  "typemismatch_w y =
     (if y < 10 then min ((y - 6) * 2 + 4) 14
      else if y < 24 then 14
      else max (14 - (y - 24) * 3) 4)"

text \<open>The body of the inner loop, lines 114 to 125, for the candidate pixel \<open>(x, y)\<close>.\<close>

definition typemismatch_pixel :: "palette \<Rightarrow> int \<Rightarrow> int \<Rightarrow> int \<Rightarrow> sprite \<Rightarrow> sprite option" where
  "typemismatch_pixel P cx x y s = do {
     col \<leftarrow> (if x < cx
             then (if y mod 2 = 0 then lookup P ''red'' else lookup P ''dark_red'')
             else (if y mod 2 = 0 then lookup P ''orange'' else lookup P ''yellow''));
     if y mod 5 = 0
     then (let shift = (if x < cx then 1 else - 1)
           in Some (mark (x + shift, y) (paint (x + shift, y) col s)))
     else Some (mark (x, y) (paint (x, y) col s))
   }"

definition typemismatch_fill :: "palette \<Rightarrow> sprite \<Rightarrow> sprite option" where
  "typemismatch_fill P =
     for_each (py_range 6 28) (\<lambda>y.
       let w = typemismatch_w y;
           cx = 16 in
       for_each (py_range (cx - w div 2) (cx + w div 2)) (\<lambda>x. typemismatch_pixel P cx x y))"

definition typemismatch_overlay :: "palette \<Rightarrow> color \<Rightarrow> sprite \<Rightarrow> sprite option" where
  "typemismatch_overlay P B s = do {
     s \<leftarrow> for_each (py_range 8 26) (\<lambda>y s. Some (paint (16, y) B s)) s;
     s \<leftarrow> put P (13, 12) ''white'' s;
     s \<leftarrow> put P (14, 12) ''white'' s;
     s \<leftarrow> put P (13, 13) ''red'' s;
     s \<leftarrow> put P (14, 13) ''white'' s;
     s \<leftarrow> put P (18, 11) ''yellow'' s;
     s \<leftarrow> put P (19, 12) ''yellow'' s;
     s \<leftarrow> put P (18, 13) ''yellow'' s;
     s \<leftarrow> for_each (py_range 13 20) (\<lambda>x. put P (x, 18) ''dark_bg'') s;
     s \<leftarrow> put P (14, 17) ''dark_bg'' s;
     put P (18, 17) ''dark_bg'' s
   }"

definition typemismatch_body :: "palette \<Rightarrow> color \<Rightarrow> sprite option" where
  "typemismatch_body P B = do { s \<leftarrow> typemismatch_fill P new_sprite; typemismatch_overlay P B s }"

definition typemismatch :: "palette \<Rightarrow> color \<Rightarrow> color \<Rightarrow> image option" where
  "typemismatch P T B = do { s \<leftarrow> typemismatch_body P B; make_sprite (composite s B) T }"

subsection \<open>\<^verbatim>\<open>offbyone\<close>, lines 148 to 195\<close>

definition offbyone_fill :: "palette \<Rightarrow> sprite \<Rightarrow> sprite option" where
  "offbyone_fill P =
     for_each (py_range 8 26) (\<lambda>y.
       let w = (if y < 12 then min ((y - 8) * 2 + 4) 12
                else if y < 22 then 12
                else max (12 - (y - 22) * 2) 4);
           cx = 15 in
       for_each (py_range (cx - w div 2) (cx + w div 2)) (\<lambda>x s. do {
         col \<leftarrow> (if (x + y) mod 3 \<noteq> 0 then lookup P ''green'' else lookup P ''dark_green'');
         Some (mark (x, y) (paint (x, y) col s))
       }))"

definition offbyone_overlay :: "palette \<Rightarrow> sprite \<Rightarrow> sprite option" where
  "offbyone_overlay P s = do {
     s \<leftarrow> put P (14, 7) ''light_green'' s;
     s \<leftarrow> put P (14, 6) ''light_green'' s;
     s \<leftarrow> put P (13, 5) ''light_green'' s;
     s \<leftarrow> put P (17, 7) ''light_green'' s;
     s \<leftarrow> put P (17, 6) ''light_green'' s;
     s \<leftarrow> put P (18, 5) ''light_green'' s;
     s \<leftarrow> put P (12, 13) ''white'' s;
     s \<leftarrow> put P (13, 13) ''white'' s;
     s \<leftarrow> put P (12, 14) ''yellow'' s;
     s \<leftarrow> put P (13, 14) ''white'' s;
     s \<leftarrow> put P (17, 12) ''white'' s;
     s \<leftarrow> put P (18, 12) ''white'' s;
     s \<leftarrow> put P (17, 13) ''yellow'' s;
     s \<leftarrow> put P (18, 13) ''white'' s;
     s \<leftarrow> for_each [- 1, 0, 1] (\<lambda>dx s.
           let lx = 10 + dx * 3; rx = 19 + dx * 3 in do {
             s \<leftarrow> put P (lx, 24 + \<bar>dx\<bar>) ''dark_green'' s;
             s \<leftarrow> put P (rx, 24 + \<bar>dx\<bar>) ''dark_green'' s;
             s \<leftarrow> put P (lx, 25 + \<bar>dx\<bar>) ''dark_green'' s;
             put P (rx, 25 + \<bar>dx\<bar>) ''dark_green'' s
           }) s;
     s \<leftarrow> put P (15, 19) ''yellow'' s;
     put P (16, 19) ''yellow'' s
   }"

definition offbyone_body :: "palette \<Rightarrow> sprite option" where
  "offbyone_body P = do { s \<leftarrow> offbyone_fill P new_sprite; offbyone_overlay P s }"

definition offbyone :: "palette \<Rightarrow> color \<Rightarrow> color \<Rightarrow> image option" where
  "offbyone P T B = do { s \<leftarrow> offbyone_body P; make_sprite (composite s B) T }"

subsection \<open>\<^verbatim>\<open>stackoverflow_boss\<close>, lines 197 to 249\<close>

text \<open>
  The list \<^verbatim>\<open>layers\<close> is built first, with its four palette lookups. A layer is filled
  and then framed: top and bottom rows, then left and right columns.
\<close>

definition stackoverflow_layer ::
    "palette \<Rightarrow> int \<times> int \<times> int \<times> int \<times> color \<Rightarrow> sprite \<Rightarrow> sprite option" where
  "stackoverflow_layer P = (\<lambda>(lx, ly, rx, ry, col) s. do {
     s \<leftarrow> for_each (py_range ly ry) (\<lambda>y.
           for_each (py_range lx rx) (\<lambda>x s. Some (mark (x, y) (paint (x, y) col s)))) s;
     s \<leftarrow> for_each (py_range lx rx) (\<lambda>x s. do {
           s \<leftarrow> put P (x, ly) ''yellow'' s;
           put P (x, ry - 1) ''dark_brown'' s
         }) s;
     for_each (py_range ly ry) (\<lambda>y s. do {
           s \<leftarrow> put P (lx, y) ''yellow'' s;
           put P (rx - 1, y) ''dark_brown'' s
         }) s
   })"

definition stackoverflow_fill :: "palette \<Rightarrow> sprite \<Rightarrow> sprite option" where
  "stackoverflow_fill P s = do {
     c1 \<leftarrow> lookup P ''dark_red'';
     c2 \<leftarrow> lookup P ''red'';
     c3 \<leftarrow> lookup P ''dark_red'';
     c4 \<leftarrow> lookup P ''red'';
     let layers = [(8, 10, 24, 14, c1), (7, 14, 25, 18, c2), (6, 18, 26, 23, c3), (5, 23, 27, 27, c4)];
     for_each layers (stackoverflow_layer P) s
   }"

definition stackoverflow_overlay :: "palette \<Rightarrow> sprite \<Rightarrow> sprite option" where
  "stackoverflow_overlay P s = do {
     s \<leftarrow> for_each [12, 16, 20] (\<lambda>x s. do {
           s \<leftarrow> put P (x, 8) ''yellow'' s;
           put P (x, 9) ''yellow'' s
         }) s;
     s \<leftarrow> put P (11, 9) ''yellow'' s;
     s \<leftarrow> put P (21, 9) ''yellow'' s;
     s \<leftarrow> Some (mark_all [(12, 8), (16, 8), (20, 8), (12, 9), (16, 9), (20, 9), (11, 9), (21, 9)] s);
     s \<leftarrow> for_each [12, 13] (\<lambda>x s. do {
           s \<leftarrow> put P (x, 12) ''yellow'' s;
           put P (x, 13) ''yellow'' s
         }) s;
     s \<leftarrow> for_each [19, 20] (\<lambda>x s. do {
           s \<leftarrow> put P (x, 12) ''yellow'' s;
           put P (x, 13) ''yellow'' s
         }) s;
     s \<leftarrow> put P (13, 13) ''dark_bg'' s;
     s \<leftarrow> put P (19, 13) ''dark_bg'' s;
     s \<leftarrow> for_each (py_range 13 20) (\<lambda>x. put P (x, 16) ''dark_bg'') s;
     s \<leftarrow> put P (14, 15) ''dark_bg'' s;
     s \<leftarrow> put P (18, 15) ''dark_bg'' s;
     for_each (py_range 10 22) (\<lambda>x s.
       if x mod 2 = 0 then put P (x, 25) ''yellow'' s else Some s) s
   }"

definition stackoverflow_body :: "palette \<Rightarrow> sprite option" where
  "stackoverflow_body P = do { s \<leftarrow> stackoverflow_fill P new_sprite; stackoverflow_overlay P s }"

definition stackoverflow_boss :: "palette \<Rightarrow> color \<Rightarrow> color \<Rightarrow> image option" where
  "stackoverflow_boss P T B = do { s \<leftarrow> stackoverflow_body P; make_sprite (composite s B) T }"

subsection \<open>\<^verbatim>\<open>racecondition\<close>, lines 251 to 291\<close>

definition racecondition_twin1 :: "palette \<Rightarrow> sprite \<Rightarrow> sprite option" where
  "racecondition_twin1 P =
     for_each (py_range 8 24) (\<lambda>y.
       let w = (if y < 20 then 8 else max (8 - (y - 20)) 4);
           cx = 13 in
       for_each (py_range (cx - w div 2) (cx + w div 2)) (\<lambda>x s. do {
         col \<leftarrow> lookup P ''blue'';
         Some (mark (x, y) (paint (x, y) col s))
       }))"

definition racecondition_twin2 :: "palette \<Rightarrow> sprite \<Rightarrow> sprite option" where
  "racecondition_twin2 P =
     for_each (py_range 9 25) (\<lambda>y.
       let w = (if y < 21 then 8 else max (8 - (y - 21)) 4);
           cx = 19 in
       for_each (py_range (cx - w div 2) (cx + w div 2)) (\<lambda>x s. do {
         s \<leftarrow> (if (x, y) \<in> fst ` set (body s)
               then put P (x, y) ''cyan'' s
               else put P (x, y) ''light_blue'' s);
         Some (mark (x, y) s)
       }))"

definition racecondition_fill :: "palette \<Rightarrow> sprite \<Rightarrow> sprite option" where
  "racecondition_fill P s = do { s \<leftarrow> racecondition_twin1 P s; racecondition_twin2 P s }"

definition racecondition_overlay :: "palette \<Rightarrow> sprite \<Rightarrow> sprite option" where
  "racecondition_overlay P s = do {
     s \<leftarrow> put P (12, 13) ''white'' s;
     s \<leftarrow> put P (13, 13) ''white'' s;
     s \<leftarrow> put P (12, 14) ''dark_bg'' s;
     s \<leftarrow> put P (18, 14) ''white'' s;
     s \<leftarrow> put P (19, 14) ''white'' s;
     s \<leftarrow> put P (19, 15) ''dark_bg'' s;
     for_each [11, 15, 19] (\<lambda>y s. do {
       s \<leftarrow> put P (7, y) ''dark_blue'' s;
       s \<leftarrow> put P (6, y) ''dark_blue'' s;
       s \<leftarrow> put P (24, y + 1) ''dark_blue'' s;
       s \<leftarrow> put P (25, y + 1) ''dark_blue'' s;
       Some (mark_all [(7, y), (6, y), (24, y + 1), (25, y + 1)] s)
     }) s
   }"

definition racecondition_body :: "palette \<Rightarrow> sprite option" where
  "racecondition_body P = do { s \<leftarrow> racecondition_fill P new_sprite; racecondition_overlay P s }"

definition racecondition :: "palette \<Rightarrow> color \<Rightarrow> color \<Rightarrow> image option" where
  "racecondition P T B = do { s \<leftarrow> racecondition_body P; make_sprite (composite s B) T }"

subsection \<open>\<^verbatim>\<open>memoryleak\<close>, lines 293 to 339\<close>

definition memoryleak_fill :: "palette \<Rightarrow> sprite \<Rightarrow> sprite option" where
  "memoryleak_fill P =
     for_each (py_range 7 24) (\<lambda>y.
       let w = (if y < 11 then min ((y - 7) * 3 + 4) 16
                else if y < 20 then 16
                else max (16 - (y - 20) * 2) 8);
           cx = 16 in
       for_each (py_range (cx - w div 2) (cx + w div 2)) (\<lambda>x s. do {
         shade \<leftarrow> (if (x + y) mod 2 = 0 then lookup P ''green'' else lookup P ''light_green'');
         Some (mark (x, y) (paint (x, y) shade s))
       }))"

definition memoryleak_overlay :: "palette \<Rightarrow> sprite \<Rightarrow> sprite option" where
  "memoryleak_overlay P s = do {
     s \<leftarrow> (let drips = [(10, 3), (14, 5), (18, 4), (22, 2)] in
           for_each drips (\<lambda>(dx, length).
             for_each (py_range 0 length) (\<lambda>dy s. do {
               col \<leftarrow> (if dy mod 2 = 0 then lookup P ''green'' else lookup P ''dark_green'');
               Some (mark (dx, 24 + dy) (paint (dx, 24 + dy) col s))
             })) s);
     s \<leftarrow> put P (12, 13) ''white'' s;
     s \<leftarrow> put P (13, 13) ''white'' s;
     s \<leftarrow> put P (12, 14) ''white'' s;
     s \<leftarrow> put P (13, 14) ''dark_bg'' s;
     s \<leftarrow> put P (19, 13) ''white'' s;
     s \<leftarrow> put P (20, 13) ''white'' s;
     s \<leftarrow> put P (19, 14) ''dark_bg'' s;
     s \<leftarrow> put P (20, 14) ''white'' s;
     s \<leftarrow> put P (15, 18) ''dark_green'' s;
     s \<leftarrow> put P (16, 18) ''dark_green'' s;
     s \<leftarrow> put P (17, 18) ''dark_green'' s;
     s \<leftarrow> put P (16, 19) ''dark_green'' s;
     s \<leftarrow> put P (16, 20) ''dark_green'' s;
     s \<leftarrow> put P (22, 9) ''light_green'' s;
     s \<leftarrow> put P (24, 7) ''light_green'' s;
     s \<leftarrow> put P (23, 8) ''light_green'' s;
     Some (mark_all [(22, 9), (24, 7), (23, 8)] s)
   }"

definition memoryleak_body :: "palette \<Rightarrow> sprite option" where
  "memoryleak_body P = do { s \<leftarrow> memoryleak_fill P new_sprite; memoryleak_overlay P s }"

definition memoryleak :: "palette \<Rightarrow> color \<Rightarrow> color \<Rightarrow> image option" where
  "memoryleak P T B = do { s \<leftarrow> memoryleak_body P; make_sprite (composite s B) T }"

subsection \<open>\<^verbatim>\<open>deadlock\<close>, lines 341 to 390\<close>

definition deadlock_fill :: "palette \<Rightarrow> sprite \<Rightarrow> sprite option" where
  "deadlock_fill P =
     for_each (py_range 9 25) (\<lambda>y.
       let w = (if y < 13 then min ((y - 9) * 2 + 6) 14
                else if y < 21 then 14
                else max (14 - (y - 21) * 2) 6);
           cx = 16 in
       for_each (py_range (cx - w div 2) (cx + w div 2)) (\<lambda>x s. do {
         col \<leftarrow> (if (x + y) mod 2 = 0 then lookup P ''gray'' else lookup P ''dark_gray'');
         Some (mark (x, y) (paint (x, y) col s))
       }))"

definition deadlock_overlay :: "palette \<Rightarrow> sprite \<Rightarrow> sprite option" where
  "deadlock_overlay P s = do {
     s \<leftarrow> (let chain_l = [(7, 14), (8, 13), (8, 15), (7, 16), (6, 15), (6, 13)] in
           for_each chain_l (\<lambda>(x, y) s. do {
             s \<leftarrow> put P (x, y) ''brown'' s;
             Some (mark (x, y) s)
           }) s);
     s \<leftarrow> (let chain_r = [(25, 14), (24, 13), (24, 15), (25, 16), (26, 15), (26, 13)] in
           for_each chain_r (\<lambda>(x, y) s. do {
             s \<leftarrow> put P (x, y) ''brown'' s;
             Some (mark (x, y) s)
           }) s);
     s \<leftarrow> for_each (py_range 14 19) (\<lambda>x s. do {
           s \<leftarrow> put P (x, 16) ''yellow'' s;
           put P (x, 17) ''yellow'' s
         }) s;
     s \<leftarrow> put P (15, 14) ''yellow'' s;
     s \<leftarrow> put P (17, 14) ''yellow'' s;
     s \<leftarrow> put P (15, 15) ''yellow'' s;
     s \<leftarrow> put P (17, 15) ''yellow'' s;
     s \<leftarrow> put P (16, 17) ''dark_bg'' s;
     s \<leftarrow> put P (12, 12) ''red'' s;
     s \<leftarrow> put P (13, 12) ''red'' s;
     s \<leftarrow> put P (19, 12) ''red'' s;
     s \<leftarrow> put P (20, 12) ''red'' s;
     s \<leftarrow> for_each (py_range 13 20) (\<lambda>x. put P (x, 19) ''dark_bg'') s;
     s \<leftarrow> put P (13, 18) ''dark_bg'' s;
     put P (19, 18) ''dark_bg'' s
   }"

definition deadlock_body :: "palette \<Rightarrow> sprite option" where
  "deadlock_body P = do { s \<leftarrow> deadlock_fill P new_sprite; deadlock_overlay P s }"

definition deadlock :: "palette \<Rightarrow> color \<Rightarrow> color \<Rightarrow> image option" where
  "deadlock P T B = do { s \<leftarrow> deadlock_body P; make_sprite (composite s B) T }"

subsection \<open>\<^verbatim>\<open>heisenbug_boss\<close>, lines 392 to 437\<close>

definition heisenbug_fill :: "palette \<Rightarrow> sprite \<Rightarrow> sprite option" where
  "heisenbug_fill P s = do {
     c0 \<leftarrow> lookup P ''purple'';
     c1 \<leftarrow> lookup P ''blue'';
     c2 \<leftarrow> lookup P ''cyan'';
     c3 \<leftarrow> lookup P ''light_blue'';
     c4 \<leftarrow> lookup P ''magenta'';
     let colors = [c0, c1, c2, c3, c4];
     for_each (py_range 5 28) (\<lambda>y.
       let w = (if y < 10 then min ((y - 5) * 3 + 2) 18
                else if y < 24 then 18
                else max (18 - (y - 24) * 3) 6);
           cx = 16 in
       for_each (py_range (cx - w div 2) (cx + w div 2)) (\<lambda>x s.
         let ci = (x * 3 + y * 7) mod int (length colors) in do {
           col \<leftarrow> list_get colors ci;
           Some (mark (x, y) (paint (x, y) col s))
         })) s
   }"

definition heisenbug_overlay :: "palette \<Rightarrow> sprite \<Rightarrow> sprite option" where
  "heisenbug_overlay P s = do {
     s \<leftarrow> for_each [11, 14, 16, 18, 21] (\<lambda>x s. do {
           s \<leftarrow> put P (x, 4) ''magenta'' s;
           s \<leftarrow> put P (x, 3) ''magenta'' s;
           Some (mark_all [(x, 4), (x, 3)] s)
         }) s;
     s \<leftarrow> (let eye_positions = [(11, 13), (14, 11), (18, 11), (21, 13)] in
           for_each eye_positions (\<lambda>(ex, ey) s. do {
             s \<leftarrow> put P (ex, ey) ''white'' s;
             s \<leftarrow> put P (ex + 1, ey) ''white'' s;
             s \<leftarrow> put P (ex, ey + 1) ''yellow'' s;
             put P (ex + 1, ey + 1) ''white'' s
           }) s);
     s \<leftarrow> for_each (py_range 11 22) (\<lambda>x s.
           let my = 18 + (if x mod 3 = 0 then 1 else 0) in put P (x, my) ''dark_bg'' s) s;
     s \<leftarrow> (let particles = [(6, 8), (26, 10), (5, 18), (27, 16), (8, 25), (24, 26)] in
           for_each particles (\<lambda>(px, py) s. do {
             s \<leftarrow> put P (px, py) ''light_blue'' s;
             Some (mark (px, py) s)
           }) s);
     s \<leftarrow> put P (16, 21) ''yellow'' s;
     put P (16, 23) ''yellow'' s
   }"

definition heisenbug_body :: "palette \<Rightarrow> sprite option" where
  "heisenbug_body P = do { s \<leftarrow> heisenbug_fill P new_sprite; heisenbug_overlay P s }"

definition heisenbug_boss :: "palette \<Rightarrow> color \<Rightarrow> color \<Rightarrow> image option" where
  "heisenbug_boss P T B = do { s \<leftarrow> heisenbug_body P; make_sprite (composite s B) T }"

subsection \<open>The module and its \<^verbatim>\<open>__main__\<close> block\<close>

text \<open>
  \<^verbatim>\<open>T\<close> and \<^verbatim>\<open>B\<close> are looked up once, when the module is loaded (lines 37 and 38); the
  generators then run in the order of lines 442 to 450. An exception raised anywhere is
  caught nowhere: the first \<^const>\<open>None\<close> ends the run, and no later sprite is made.
\<close>

definition main :: "palette \<Rightarrow> color \<Rightarrow> color \<Rightarrow> image list option" where
  "main P T B = do {
     i1 \<leftarrow> nullpointer P T B;
     i2 \<leftarrow> typemismatch P T B;
     i3 \<leftarrow> offbyone P T B;
     i4 \<leftarrow> stackoverflow_boss P T B;
     i5 \<leftarrow> racecondition P T B;
     i6 \<leftarrow> memoryleak P T B;
     i7 \<leftarrow> deadlock P T B;
     i8 \<leftarrow> heisenbug_boss P T B;
     Some [i1, i2, i3, i4, i5, i6, i7, i8]
   }"

definition script :: "palette \<Rightarrow> image list option" where
  "script P = do {
     T \<leftarrow> lookup P ''transparent'';
     B \<leftarrow> lookup P ''black'';
     main P T B
   }"

section \<open>The outline: what \<^verbatim>\<open>draw_outline\<close> writes\<close>

text \<open>
  The property the specification asks of the outline, in its own words: an orthogonal
  neighbour of a member of the body set, inside the canvas, not itself a member.
\<close>

definition orthogonal :: "coord \<Rightarrow> coord \<Rightarrow> bool" where
  "orthogonal b p =
     (p = (fst b - 1, snd b) \<or> p = (fst b + 1, snd b) \<or>
      p = (fst b, snd b - 1) \<or> p = (fst b, snd b + 1))"

definition outline_eligible :: "coord list \<Rightarrow> coord \<Rightarrow> bool" where
  "outline_eligible body_pixels p =
     (in_canvas p \<and> p \<notin> set body_pixels \<and> (\<exists>b \<in> set body_pixels. orthogonal b p))"

lemma outline_at_map:
  "map_of (outline_at M color n outlined) p =
     (if in_canvas p \<and> p \<notin> set M \<and> p = n then Some color else map_of outlined p)"
  by (auto simp: outline_at_def update_conv' in_canvas_def)

lemma outline_around_map:
  "map_of (outline_around M color b outlined) p =
     (if in_canvas p \<and> p \<notin> set M \<and> orthogonal b p then Some color else map_of outlined p)"
  by (cases b) (auto simp: outline_around_def outline_at_map orthogonal_def)

lemma outline_fold_map:
  "map_of (fold (outline_around M color) bs pixels) p =
     (if in_canvas p \<and> p \<notin> set M \<and> (\<exists>b \<in> set bs. orthogonal b p)
      then Some color else map_of pixels p)"
proof (induction bs arbitrary: pixels)
  case Nil
  show ?case by simp
next
  case (Cons b bs)
  show ?case
    unfolding fold_Cons comp_def Cons.IH outline_around_map by auto
qed

lemma draw_outline_map:
  "map_of (draw_outline pixels body_pixels color) p =
     (if outline_eligible body_pixels p then Some color else map_of pixels p)"
  unfolding draw_outline_def outline_fold_map outline_eligible_def
  by simp


text \<open>
  Claim C1. \<^verbatim>\<open>draw_outline\<close> copies \<^verbatim>\<open>pixels\<close> and stores the outline colour at exactly
  the coordinates that are an orthogonal neighbour of a member of the body set, lie inside
  the canvas (\<open>0 \<le> x, y < 32\<close>) and are not members themselves; every other coordinate
  keeps what \<^verbatim>\<open>pixels\<close> had. Called on the empty dictionary it returns the outline layer
  alone. For the body set \<open>{5, 6, 7} \<times> {5, 6, 7}\<close> that layer has exactly the twelve
  coordinates that frame the block: no corner, no cell of the block.
\<close>

theorem draw_outline_exactly_eligible:
  "map_of (draw_outline pixels body_pixels color) p =
     (if outline_eligible body_pixels p then Some color else map_of pixels p) \<and>
   map_of (draw_outline [] body_pixels color) p =
     (if outline_eligible body_pixels p then Some color else None) \<and>
   fst ` set (draw_outline [] [(5, 5), (5, 6), (5, 7), (6, 5), (6, 6), (6, 7), (7, 5), (7, 6), (7, 7)] color) =
     {(4, 5), (4, 6), (4, 7), (8, 5), (8, 6), (8, 7), (5, 4), (6, 4), (7, 4), (5, 8), (6, 8), (7, 8)} \<and>
   snd ` set (draw_outline [] [(5, 5), (5, 6), (5, 7), (6, 5), (6, 6), (6, 7), (7, 5), (7, 6), (7, 7)] color) =
     {color}"
proof (intro conjI)
  show "map_of (draw_outline pixels body_pixels color) p =
     (if outline_eligible body_pixels p then Some color else map_of pixels p)"
    by (rule draw_outline_map)
  show "map_of (draw_outline [] body_pixels color) p =
     (if outline_eligible body_pixels p then Some color else None)"
    by (simp add: draw_outline_map)
  show "fst ` set (draw_outline [] [(5, 5), (5, 6), (5, 7), (6, 5), (6, 6), (6, 7), (7, 5), (7, 6), (7, 7)] color) =
     {(4, 5), (4, 6), (4, 7), (8, 5), (8, 6), (8, 7), (5, 4), (6, 4), (7, 4), (5, 8), (6, 8), (7, 8)}"
    by (simp add: draw_outline_def outline_around_def outline_at_def) blast
  show "snd ` set (draw_outline [] [(5, 5), (5, 6), (5, 7), (6, 5), (6, 6), (6, 7), (7, 5), (7, 6), (7, 7)] color) =
     {color}"
    by (simp add: draw_outline_def outline_around_def outline_at_def)
qed

section \<open>The composited dictionary\<close>

lemma map_of_rev_distinct: "distinct (map fst xs) \<Longrightarrow> map_of (rev xs) = map_of xs"
proof (induction xs)
  case Nil
  show ?case by simp
next
  case (Cons a xs)
  obtain k v where a: "a = (k, v)" by (cases a)
  from Cons.prems a have "k \<notin> fst ` set xs" by simp
  then have none: "map_of xs k = None" by (simp add: map_of_eq_None_iff)
  have "map_of (rev (a # xs)) = [k \<mapsto> v] ++ map_of xs"
    using Cons a by simp
  also have "\<dots> = (map_of xs)(k \<mapsto> v)"
    using none by (auto simp: map_add_def fun_eq_iff split: option.splits)
  finally show ?case by (simp add: a)
qed

lemma dict_update_map: "map_of (dict_update d other) = map_of d ++ map_of (rev other)"
  unfolding dict_update_def
proof (induction other arbitrary: d)
  case Nil
  show ?case by simp
next
  case (Cons a other)
  obtain k v where a: "a = (k, v)" by (cases a)
  show ?case
    unfolding a by (simp add: Cons.IH update_conv' map_add_def fun_eq_iff split: option.splits)
qed

lemma dict_update_distinct:
  "distinct (map fst d) \<Longrightarrow> distinct (map fst (dict_update d other))"
  unfolding dict_update_def
  by (induction other arbitrary: d) (auto simp: distinct_update)

lemma draw_outline_distinct:
  "distinct (map fst pixels) \<Longrightarrow> distinct (map fst (draw_outline pixels bs c))"
proof -
  have at: "\<And>n d. distinct (map fst d) \<Longrightarrow> distinct (map fst (outline_at bs c n d))"
    by (simp add: outline_at_def distinct_update)
  have around: "\<And>b d. distinct (map fst d) \<Longrightarrow> distinct (map fst (outline_around bs c b d))"
    by (auto simp: outline_around_def at split: prod.splits)
  have "\<And>d. distinct (map fst d) \<Longrightarrow> distinct (map fst (fold (outline_around bs c) xs d))" for xs
    by (induction xs) (auto simp: around)
  then show "distinct (map fst pixels) \<Longrightarrow> ?thesis"
    by (simp add: draw_outline_def)
qed

lemma composite_map:
  assumes "distinct (map fst (body s))"
  shows "map_of (composite s B) p =
     (case map_of (body s) p of Some col \<Rightarrow> Some col
      | None \<Rightarrow> if outline_eligible (body_set s) p then Some B else None)"
  using assms
  by (simp add: composite_def dict_update_map map_of_rev_distinct draw_outline_map map_add_def
        split: option.splits)

text \<open>
  A run of overlay statements \<^verbatim>\<open>body[p] = col\<close>, executed in order on the sprite that the
  fill left.
\<close>

definition overlay_writes :: "(coord \<times> color) list \<Rightarrow> sprite \<Rightarrow> sprite" where
  "overlay_writes ws s = fold (\<lambda>(p, col). paint p col) ws s"

lemma overlay_writes_body: "body (overlay_writes ws s) = dict_update (body s) ws"
  unfolding overlay_writes_def dict_update_def
  by (induction ws arbitrary: s) (auto simp: paint_def)

lemma overlay_writes_body_set: "body_set (overlay_writes ws s) = body_set s"
  unfolding overlay_writes_def
  by (induction ws arbitrary: s) (auto simp: paint_def)

text \<open>
  Claim C2. The dictionary handed to \<^verbatim>\<open>make_sprite\<close> resolves every coordinate by
  precedence: the last overlay statement that wrote it, else the colour the fill gave it,
  else the outline colour if the coordinate is outline-eligible, else nothing. So an
  overlay pixel on a coordinate that \<^verbatim>\<open>draw_outline\<close> colours keeps the overlay's colour.
\<close>

theorem composite_precedence:
  assumes "distinct (map fst (body fill))"
  shows "map_of (composite (overlay_writes overlay fill) B) p =
     (case map_of (rev overlay) p of Some col \<Rightarrow> Some col
      | None \<Rightarrow> (case map_of (body fill) p of Some col \<Rightarrow> Some col
      | None \<Rightarrow> if outline_eligible (body_set fill) p then Some B else None))"
proof -
  have "distinct (map fst (body (overlay_writes overlay fill)))"
    using assms by (simp add: overlay_writes_body dict_update_distinct)
  then show ?thesis
    by (simp add: composite_map overlay_writes_body overlay_writes_body_set dict_update_map
          map_add_def split: option.splits)
qed

theorem composite_precedence_witness:
  "distinct (map fst (body \<lparr>body = [((5, 5), RGBA 1 1 1 255)], body_set = [(5, 5)]\<rparr>)) \<and>
   outline_eligible (body_set \<lparr>body = [((5, 5), RGBA 1 1 1 255)], body_set = [(5, 5)]\<rparr>) (5, 4) \<and>
   map_of (draw_outline [((5, 5), RGBA 1 1 1 255)] [(5, 5)] (RGBA 0 0 0 255)) (5, 4) = Some (RGBA 0 0 0 255) \<and>
   map_of (composite (overlay_writes [((5, 4), RGBA 2 2 2 255)]
             \<lparr>body = [((5, 5), RGBA 1 1 1 255)], body_set = [(5, 5)]\<rparr>) (RGBA 0 0 0 255)) (5, 4)
     = Some (RGBA 2 2 2 255)"
  using composite_precedence [of "\<lparr>body = [((5, 5), RGBA 1 1 1 255)], body_set = [(5, 5)]\<rparr>"
      "[((5, 4), RGBA 2 2 2 255)]" "RGBA 0 0 0 255" "(5, 4)"]
  by (simp add: outline_eligible_def in_canvas_def orthogonal_def draw_outline_def outline_around_def outline_at_def)

section \<open>Rasterization: what \<^verbatim>\<open>make_sprite\<close> returns\<close>

definition canvas32 :: "image \<Rightarrow> bool" where
  "canvas32 img = (length img = 32 \<and> list_all (\<lambda>row. length row = 32) img)"

definition raster :: "coord \<times> color \<Rightarrow> image \<Rightarrow> image option" where
  "raster = (\<lambda>((x, y), color) img.
          if 0 \<le> x \<and> x < 32 \<and> 0 \<le> y \<and> y < 32 then putpixel (x, y) color img else Some img)"

lemma make_sprite_raster: "make_sprite pixels_map T = for_each pixels_map raster (Image_new 32 32 T)"
  by (simp add: make_sprite_def raster_def)

lemma canvas32_new: "canvas32 (Image_new 32 32 T)"
  by (simp add: canvas32_def Image_new_def list_all_iff)

lemma getpixel_new:
  assumes "in_canvas p"
  shows "getpixel (Image_new 32 32 T) p = T"
proof -
  from assms have "nat (snd p) < 32" "nat (fst p) < 32"
    unfolding in_canvas_def by linarith+
  then show ?thesis by (simp add: getpixel_def Image_new_def)
qed

lemma canvas32_row: "canvas32 img \<Longrightarrow> i < 32 \<Longrightarrow> length (img ! i) = 32"
  by (simp add: canvas32_def list_all_length)

lemma raster_outside: "\<not> in_canvas (fst e) \<Longrightarrow> raster e img = Some img"
  by (cases e) (auto simp: raster_def in_canvas_def)

lemma raster_inside:
  assumes "canvas32 img" and "in_canvas (fst e)"
  shows "\<exists>img'. raster e img = Some img' \<and> canvas32 img' \<and>
           (\<forall>p. in_canvas p \<longrightarrow> getpixel img' p = (if p = fst e then snd e else getpixel img p))"
proof -
  obtain x y c where e: "e = ((x, y), c)" by (cases e) auto
  from assms(2) e have xy: "0 \<le> x" "x < 32" "0 \<le> y" "y < 32" by (simp_all add: in_canvas_def)
  then have ny: "nat y < 32" and nx: "nat x < 32" by linarith+
  have len: "length img = 32" using assms(1) by (simp add: canvas32_def)
  have rowlen: "length (img ! nat y) = 32" using assms(1) ny by (rule canvas32_row)
  let ?img' = "img[nat y := (img ! nat y)[nat x := c]]"
  have r: "raster e img = Some ?img'"
    using xy len rowlen ny nx by (simp add: e raster_def putpixel_def)
  have c32: "canvas32 ?img'"
    using assms(1) rowlen ny len
    by (auto simp: canvas32_def list_all_length nth_list_update)
  have px: "getpixel ?img' p = (if p = fst e then snd e else getpixel img p)" if "in_canvas p" for p
  proof -
    obtain x' y' where p: "p = (x', y')" by (cases p)
    from that p have b: "0 \<le> x'" "x' < 32" "0 \<le> y'" "y' < 32" by (simp_all add: in_canvas_def)
    then have "nat y' < length img" "nat x' < 32" using len by linarith+
    then show ?thesis
      using xy b len rowlen
      by (auto simp: getpixel_def p e nth_list_update)
  qed
  from r c32 px show ?thesis by blast
qed

lemma for_each_raster:
  assumes "canvas32 img"
  shows "\<exists>img'. for_each pm raster img = Some img' \<and> canvas32 img' \<and>
           (\<forall>p. in_canvas p \<longrightarrow>
              getpixel img' p = (case map_of (rev pm) p of Some c \<Rightarrow> c | None \<Rightarrow> getpixel img p))"
  using assms
proof (induction pm arbitrary: img)
  case Nil
  then show ?case by simp
next
  case (Cons e pm)
  show ?case
  proof (cases "in_canvas (fst e)")
    case True
    from raster_inside[OF Cons.prems True] obtain img1 where
      r: "raster e img = Some img1" and c: "canvas32 img1" and
      px: "\<And>p. in_canvas p \<Longrightarrow> getpixel img1 p = (if p = fst e then snd e else getpixel img p)"
      by blast
    from Cons.IH[OF c] obtain img' where
      f: "for_each pm raster img1 = Some img'" and c': "canvas32 img'" and
      px': "\<And>p. in_canvas p \<Longrightarrow>
              getpixel img' p = (case map_of (rev pm) p of Some c \<Rightarrow> c | None \<Rightarrow> getpixel img1 p)"
      by blast
    have "for_each (e # pm) raster img = Some img'" using r f by simp
    moreover have "getpixel img' p =
        (case map_of (rev (e # pm)) p of Some c \<Rightarrow> c | None \<Rightarrow> getpixel img p)" if "in_canvas p" for p
      using px'[OF that] px[OF that]
      by (cases e) (auto simp: map_add_def split: option.splits)
    ultimately show ?thesis using c' by blast
  next
    case False
    then have r: "raster e img = Some img" by (rule raster_outside)
    from Cons.IH[OF Cons.prems] obtain img' where
      f: "for_each pm raster img = Some img'" and c': "canvas32 img'" and
      px': "\<And>p. in_canvas p \<Longrightarrow>
              getpixel img' p = (case map_of (rev pm) p of Some c \<Rightarrow> c | None \<Rightarrow> getpixel img p)"
      by blast
    have "for_each (e # pm) raster img = Some img'" using r f by simp
    moreover have "getpixel img' p =
        (case map_of (rev (e # pm)) p of Some c \<Rightarrow> c | None \<Rightarrow> getpixel img p)" if "in_canvas p" for p
      using px'[OF that] False that
      by (cases e) (auto simp: map_add_def split: option.splits)
    ultimately show ?thesis using c' by blast
  qed
qed

lemma for_each_raster_filter:
  "for_each (filter (\<lambda>e. in_canvas (fst e)) pm) raster img = for_each pm raster img"
proof (induction pm arbitrary: img)
  case Nil
  show ?case by simp
next
  case (Cons e pm)
  show ?case
    by (cases "in_canvas (fst e)") (auto simp: Cons.IH raster_outside split: option.splits)
qed

section \<open>Runs of writes\<close>

text \<open>
  Every generator only ever stores a colour (\<^const>\<open>paint\<close>) or registers a coordinate
  (\<^const>\<open>mark\<close>). A run of such writes is replayed in order; the loops of the generators
  are shown below to be such runs, and what a run leaves in \<^verbatim>\<open>body\<close> and \<^verbatim>\<open>body_set\<close> is read
  off the run.
\<close>

datatype op = Paint coord color | Mark coord

fun exec :: "op \<Rightarrow> sprite \<Rightarrow> sprite" where
  "exec (Paint p col) s = paint p col s"
| "exec (Mark p) s = mark p s"

definition replay :: "op list \<Rightarrow> sprite \<Rightarrow> sprite" where
  "replay ops s = fold exec ops s"

lemma replay_Nil: "replay [] s = s" by (simp add: replay_def)
lemma replay_append: "replay (a @ b) s = replay b (replay a s)" by (simp add: replay_def)

lemma for_each_replay:
  assumes "\<And>x s. x \<in> set xs \<Longrightarrow> f x s = Some (replay (w x) s)"
  shows "for_each xs f s = Some (replay (concat (map w xs)) s)"
  using assms
proof (induction xs arbitrary: s)
  case Nil
  show ?case by (simp add: replay_Nil)
next
  case (Cons x xs)
  have "f x s = Some (replay (w x) s)" using Cons.prems by simp
  moreover have "for_each xs f (replay (w x) s) = Some (replay (concat (map w xs)) (replay (w x) s))"
    using Cons.IH Cons.prems by simp
  ultimately show ?case by (simp add: replay_append)
qed

lemma bind_replay:
  assumes "m = Some (replay a s)" and "\<And>s'. g s' = Some (replay b s')"
  shows "(m \<bind> g) = Some (replay (a @ b) s)"
  using assms by (simp add: replay_append)

lemma set_py_range: "set (py_range a b) = {x. a \<le> x \<and> x < b}"
  by (auto simp: py_range_def)

lemma for_each_append: "for_each (xs @ ys) f s = (for_each xs f s \<bind> for_each ys f)"
  by (induction xs arbitrary: s) (auto split: option.splits)

lemma for_each_replay_dep:
  assumes "\<And>pre x post. xs = pre @ x # post \<Longrightarrow>
             f x (replay (concat (map w pre)) s) = Some (replay (w x) (replay (concat (map w pre)) s))"
  shows "for_each xs f s = Some (replay (concat (map w xs)) s)"
  using assms
proof (induction xs rule: rev_induct)
  case Nil
  show ?case by (simp add: replay_Nil)
next
  case (snoc x xs)
  have "for_each xs f s = Some (replay (concat (map w xs)) s)"
  proof (rule snoc.IH)
    fix pre y post assume "xs = pre @ y # post"
    then have "xs @ [x] = pre @ y # (post @ [x])" by simp
    then show "f y (replay (concat (map w pre)) s) = Some (replay (w y) (replay (concat (map w pre)) s))"
      by (rule snoc.prems)
  qed
  moreover have "f x (replay (concat (map w xs)) s) = Some (replay (w x) (replay (concat (map w xs)) s))"
    by (rule snoc.prems [of xs x "[]"]) simp
  ultimately show ?case by (simp add: for_each_append replay_append)
qed

lemma body_set_exec: "set (body_set (exec a s)) = set (body_set s) \<union> (case a of Mark k \<Rightarrow> {k} | _ \<Rightarrow> {})"
  by (cases a) (auto simp: paint_def mark_def)

lemma body_set_replay: "set (body_set (replay ops s)) = set (body_set s) \<union> {k. Mark k \<in> set ops}"
  unfolding replay_def
proof (induction ops arbitrary: s)
  case Nil show ?case by simp
next
  case (Cons a ops)
  show ?case by (cases a) (auto simp: Cons.IH paint_def mark_def)
qed

lemma keys_replay: "fst ` set (body (replay ops s)) = fst ` set (body s) \<union> {k. \<exists>v. Paint k v \<in> set ops}"
  unfolding replay_def
proof (induction ops arbitrary: s)
  case Nil show ?case by simp
next
  case (Cons a ops)
  show ?case by (cases a) (auto simp: Cons.IH paint_def mark_def dom_update)
qed

lemma map_replay_other:
  "\<forall>v. Paint k v \<notin> set ops \<Longrightarrow> map_of (body (replay ops s)) k = map_of (body s) k"
  unfolding replay_def
proof (induction ops arbitrary: s)
  case Nil show ?case by simp
next
  case (Cons a ops)
  then show ?case by (cases a) (auto simp: paint_def mark_def update_conv')
qed

lemma map_replay_cases:
  "map_of (body (replay ops s)) k = Some v \<Longrightarrow>
     Paint k v \<in> set ops \<or> (map_of (body s) k = Some v \<and> (\<forall>u. Paint k u \<notin> set ops))"
  unfolding replay_def
proof (induction ops arbitrary: s)
  case Nil then show ?case by simp
next
  case (Cons a ops)
  from Cons.prems have "map_of (body (fold exec ops (exec a s))) k = Some v" by simp
  then have IH: "Paint k v \<in> set ops \<or>
      (map_of (body (exec a s)) k = Some v \<and> (\<forall>u. Paint k u \<notin> set ops))" by (rule Cons.IH)
  show ?case
  proof (cases a)
    case (Paint p col)
    with IH show ?thesis by (auto simp: paint_def update_conv' split: if_splits)
  next
    case (Mark p)
    with IH show ?thesis by (auto simp: mark_def)
  qed
qed

lemma map_replay_same:
  assumes "Paint k v \<in> set ops" and "\<And>v'. Paint k v' \<in> set ops \<Longrightarrow> v' = v"
  shows "map_of (body (replay ops s)) k = Some v"
proof -
  have "k \<in> fst ` set (body (replay ops s))" using assms(1) by (auto simp: keys_replay)
  then have "k \<in> dom (map_of (body (replay ops s)))" by (simp add: dom_map_of_conv_image_fst)
  then obtain v' where v': "map_of (body (replay ops s)) k = Some v'" by blast
  from map_replay_cases[OF v'] assms have "v' = v" by blast
  with v' show ?thesis by simp
qed



definition rows_log :: "int \<Rightarrow> int \<Rightarrow> (int \<Rightarrow> int) \<Rightarrow> (int \<Rightarrow> int) \<Rightarrow> (int \<Rightarrow> int \<Rightarrow> op list) \<Rightarrow> op list" where
  "rows_log y0 y1 lo hi cell =
     concat (map (\<lambda>y. concat (map (\<lambda>x. cell x y) (py_range (lo y) (hi y)))) (py_range y0 y1))"

lemma in_rows_log:
  "a \<in> set (rows_log y0 y1 lo hi cell) \<longleftrightarrow>
     (\<exists>x y. y0 \<le> y \<and> y < y1 \<and> lo y \<le> x \<and> x < hi y \<and> a \<in> set (cell x y))"
  by (auto simp: rows_log_def set_py_range)

lemma for_each_rows:
  assumes "\<And>x y s. y0 \<le> y \<Longrightarrow> y < y1 \<Longrightarrow> lo y \<le> x \<Longrightarrow> x < hi y \<Longrightarrow> f y x s = Some (replay (cell x y) s)"
  shows "for_each (py_range y0 y1) (\<lambda>y. for_each (py_range (lo y) (hi y)) (f y)) s =
           Some (replay (rows_log y0 y1 lo hi cell) s)"
  unfolding rows_log_def
  by (intro for_each_replay assms) (simp_all add: set_py_range)

lemma replay_new_keys: "fst ` set (body (replay ops new_sprite)) = {k. \<exists>v. Paint k v \<in> set ops}"
  by (simp add: keys_replay new_sprite_def)

lemma replay_new_marks: "set (body_set (replay ops new_sprite)) = {k. Mark k \<in> set ops}"
  by (simp add: body_set_replay new_sprite_def)




section \<open>The fills as runs of writes\<close>

definition named :: "string \<Rightarrow> color" where
  "named name = (case lookup C name of Some c \<Rightarrow> c | None \<Rightarrow> RGBA 0 0 0 0)"

lemma lookup_C:
  "lookup C ''transparent'' = Some (named ''transparent'')"
  "lookup C ''black'' = Some (named ''black'')"
  "lookup C ''dark_bg'' = Some (named ''dark_bg'')"
  "lookup C ''red'' = Some (named ''red'')"
  "lookup C ''dark_red'' = Some (named ''dark_red'')"
  "lookup C ''orange'' = Some (named ''orange'')"
  "lookup C ''yellow'' = Some (named ''yellow'')"
  "lookup C ''green'' = Some (named ''green'')"
  "lookup C ''dark_green'' = Some (named ''dark_green'')"
  "lookup C ''light_green'' = Some (named ''light_green'')"
  "lookup C ''blue'' = Some (named ''blue'')"
  "lookup C ''dark_blue'' = Some (named ''dark_blue'')"
  "lookup C ''light_blue'' = Some (named ''light_blue'')"
  "lookup C ''purple'' = Some (named ''purple'')"
  "lookup C ''dark_purple'' = Some (named ''dark_purple'')"
  "lookup C ''magenta'' = Some (named ''magenta'')"
  "lookup C ''white'' = Some (named ''white'')"
  "lookup C ''gray'' = Some (named ''gray'')"
  "lookup C ''dark_gray'' = Some (named ''dark_gray'')"
  "lookup C ''brown'' = Some (named ''brown'')"
  "lookup C ''dark_brown'' = Some (named ''dark_brown'')"
  "lookup C ''cyan'' = Some (named ''cyan'')"
  "lookup C ''dark_cyan'' = Some (named ''dark_cyan'')"
  by (simp_all add: named_def lookup_def C_def)

lemma put_C: "lookup C name = Some col \<Longrightarrow> put C p name s = Some (replay [Paint p col] s)"
  by (simp add: put_def replay_def)

lemma cell_replay: "Some (mark p (paint p col s)) = Some (replay [Paint p col, Mark p] s)"
  by (simp add: replay_def)

definition nullpointer_w :: "int \<Rightarrow> int" where
  "nullpointer_w y = (if y < 12 then min ((y - 8) * 2 + 2) 10 else if y < 22 then 10 else 10)"

definition nullpointer_cell :: "int \<Rightarrow> int \<Rightarrow> op list" where
  "nullpointer_cell x y =
     (if y \<ge> 22 \<and> (x + y) mod 3 = 0 then []
              else [Paint (x, y) (if y < 18 then named ''purple'' else named ''dark_purple''), Mark (x, y)])"

definition nullpointer_fill_log :: "op list" where
  "nullpointer_fill_log =
     rows_log 8 26 (\<lambda>y. 16 - nullpointer_w y div 2) (\<lambda>y. 16 + nullpointer_w y div 2) nullpointer_cell"

lemma nullpointer_fill_replay: "nullpointer_fill C s = Some (replay nullpointer_fill_log s)"
  unfolding nullpointer_fill_def nullpointer_fill_log_def Let_def nullpointer_w_def[symmetric]
  by (rule for_each_rows) (simp add: lookup_C replay_def nullpointer_cell_def)

definition typemismatch_cell :: "int \<Rightarrow> int \<Rightarrow> op list" where
  "typemismatch_cell x y =
     ([Paint (if y mod 5 = 0 then (if x < 16 then x + 1 else x - 1) else x, y)
                  (if x < 16 then (if y mod 2 = 0 then named ''red'' else named ''dark_red'')
                   else (if y mod 2 = 0 then named ''orange'' else named ''yellow'')),
                Mark (if y mod 5 = 0 then (if x < 16 then x + 1 else x - 1) else x, y)])"

definition typemismatch_fill_log :: "op list" where
  "typemismatch_fill_log =
     rows_log 6 28 (\<lambda>y. 16 - typemismatch_w y div 2) (\<lambda>y. 16 + typemismatch_w y div 2) typemismatch_cell"

lemma typemismatch_fill_replay: "typemismatch_fill C s = Some (replay typemismatch_fill_log s)"
  unfolding typemismatch_fill_def typemismatch_fill_log_def Let_def
  by (rule for_each_rows) (simp add: typemismatch_pixel_def lookup_C replay_def typemismatch_cell_def)

definition offbyone_w :: "int \<Rightarrow> int" where
  "offbyone_w y = (if y < 12 then min ((y - 8) * 2 + 4) 12
                else if y < 22 then 12
                else max (12 - (y - 22) * 2) 4)"

definition offbyone_cell :: "int \<Rightarrow> int \<Rightarrow> op list" where
  "offbyone_cell x y =
     ([Paint (x, y) (if (x + y) mod 3 \<noteq> 0 then named ''green'' else named ''dark_green''),
                Mark (x, y)])"

definition offbyone_fill_log :: "op list" where
  "offbyone_fill_log =
     rows_log 8 26 (\<lambda>y. 15 - offbyone_w y div 2) (\<lambda>y. 15 + offbyone_w y div 2) offbyone_cell"

lemma offbyone_fill_replay: "offbyone_fill C s = Some (replay offbyone_fill_log s)"
  unfolding offbyone_fill_def offbyone_fill_log_def Let_def offbyone_w_def[symmetric]
  by (rule for_each_rows) (simp add: lookup_C replay_def offbyone_cell_def)

definition memoryleak_w :: "int \<Rightarrow> int" where
  "memoryleak_w y = (if y < 11 then min ((y - 7) * 3 + 4) 16
                else if y < 20 then 16
                else max (16 - (y - 20) * 2) 8)"

definition memoryleak_cell :: "int \<Rightarrow> int \<Rightarrow> op list" where
  "memoryleak_cell x y =
     ([Paint (x, y) (if (x + y) mod 2 = 0 then named ''green'' else named ''light_green''),
                Mark (x, y)])"

definition memoryleak_fill_log :: "op list" where
  "memoryleak_fill_log =
     rows_log 7 24 (\<lambda>y. 16 - memoryleak_w y div 2) (\<lambda>y. 16 + memoryleak_w y div 2) memoryleak_cell"

lemma memoryleak_fill_replay: "memoryleak_fill C s = Some (replay memoryleak_fill_log s)"
  unfolding memoryleak_fill_def memoryleak_fill_log_def Let_def memoryleak_w_def[symmetric]
  by (rule for_each_rows) (simp add: lookup_C replay_def memoryleak_cell_def)

definition deadlock_w :: "int \<Rightarrow> int" where
  "deadlock_w y = (if y < 13 then min ((y - 9) * 2 + 6) 14
                else if y < 21 then 14
                else max (14 - (y - 21) * 2) 6)"

definition deadlock_cell :: "int \<Rightarrow> int \<Rightarrow> op list" where
  "deadlock_cell x y =
     ([Paint (x, y) (if (x + y) mod 2 = 0 then named ''gray'' else named ''dark_gray''),
                Mark (x, y)])"

definition deadlock_fill_log :: "op list" where
  "deadlock_fill_log =
     rows_log 9 25 (\<lambda>y. 16 - deadlock_w y div 2) (\<lambda>y. 16 + deadlock_w y div 2) deadlock_cell"

lemma deadlock_fill_replay: "deadlock_fill C s = Some (replay deadlock_fill_log s)"
  unfolding deadlock_fill_def deadlock_fill_log_def Let_def deadlock_w_def[symmetric]
  by (rule for_each_rows) (simp add: lookup_C replay_def deadlock_cell_def)

definition heisenbug_w :: "int \<Rightarrow> int" where
  "heisenbug_w y = (if y < 10 then min ((y - 5) * 3 + 2) 18
                else if y < 24 then 18
                else max (18 - (y - 24) * 3) 6)"

definition heisenbug_colors :: "color list" where
  "heisenbug_colors = [named ''purple'', named ''blue'', named ''cyan'', named ''light_blue'', named ''magenta'']"

definition heisenbug_cell :: "int \<Rightarrow> int \<Rightarrow> op list" where
  "heisenbug_cell x y =
     ([Paint (x, y) (heisenbug_colors ! nat ((x * 3 + y * 7) mod 5)), Mark (x, y)])"

definition heisenbug_fill_log :: "op list" where
  "heisenbug_fill_log =
     rows_log 5 28 (\<lambda>y. 16 - heisenbug_w y div 2) (\<lambda>y. 16 + heisenbug_w y div 2) heisenbug_cell"

lemma heisenbug_fill_replay: "heisenbug_fill C s = Some (replay heisenbug_fill_log s)"
proof -
  have "heisenbug_fill C s =
      for_each (py_range 5 28) (\<lambda>y.
        for_each (py_range (16 - heisenbug_w y div 2) (16 + heisenbug_w y div 2)) (\<lambda>x s.
          list_get heisenbug_colors ((x * 3 + y * 7) mod 5) \<bind>
            (\<lambda>col. Some (mark (x, y) (paint (x, y) col s))))) s"
    by (simp add: heisenbug_fill_def lookup_C Let_def heisenbug_w_def heisenbug_colors_def)
  also have "\<dots> = Some (replay heisenbug_fill_log s)"
    unfolding heisenbug_fill_log_def
    by (rule for_each_rows) (simp add: list_get_def heisenbug_colors_def replay_def heisenbug_cell_def)
  finally show ?thesis .
qed

definition twin1_w :: "int \<Rightarrow> int" where
  "twin1_w y = (if y < 20 then 8 else max (8 - (y - 20)) 4)"

definition twin1_cell :: "int \<Rightarrow> int \<Rightarrow> op list" where
  "twin1_cell x y =
     ([Paint (x, y) (named ''blue''), Mark (x, y)])"

definition twin1_log :: "op list" where
  "twin1_log =
     rows_log 8 24 (\<lambda>y. 13 - twin1_w y div 2) (\<lambda>y. 13 + twin1_w y div 2) twin1_cell"

lemma racecondition_twin1_replay: "racecondition_twin1 C s = Some (replay twin1_log s)"
  unfolding racecondition_twin1_def twin1_log_def Let_def twin1_w_def[symmetric]
  by (rule for_each_rows) (simp add: lookup_C replay_def twin1_cell_def)

lemma split_not_before:
  assumes "distinct xs" and "xs = pre @ x # post"
  shows "x \<notin> set pre"
  using assms by auto

lemma distinct_py_range: "distinct (py_range a b)"
  by (simp add: py_range_def)

definition twin2_w :: "int \<Rightarrow> int" where
  "twin2_w y = (if y < 21 then 8 else max (8 - (y - 21)) 4)"

definition twin2_cell :: "coord set \<Rightarrow> int \<Rightarrow> int \<Rightarrow> op list" where
  "twin2_cell K x y = [Paint (x, y) (if (x, y) \<in> K then named ''cyan'' else named ''light_blue''), Mark (x, y)]"

definition twin2_log :: "coord set \<Rightarrow> op list" where
  "twin2_log K = rows_log 9 25 (\<lambda>y. 19 - twin2_w y div 2) (\<lambda>y. 19 + twin2_w y div 2) (twin2_cell K)"

lemma twin2_cell_paint: "Paint k v \<in> set (twin2_cell K x y) \<Longrightarrow> k = (x, y)"
  by (auto simp: twin2_cell_def)

lemma racecondition_twin2_replay:
  "racecondition_twin2 C s = Some (replay (twin2_log (fst ` set (body s))) s)"
  unfolding racecondition_twin2_def twin2_log_def rows_log_def Let_def twin2_w_def[symmetric]
proof (rule for_each_replay_dep)
  fix pre y post
  assume rows: "py_range 9 25 = pre @ y # post"
  let ?K = "fst ` set (body s)"
  let ?row = "\<lambda>y. concat (map (\<lambda>x. twin2_cell ?K x y) (py_range (19 - twin2_w y div 2) (19 + twin2_w y div 2)))"
  let ?s1 = "replay (concat (map ?row pre)) s"
  have y_new: "y \<notin> set pre"
    using distinct_py_range rows by (metis split_not_before)
  show "for_each (py_range (19 - twin2_w y div 2) (19 + twin2_w y div 2))
          (\<lambda>x s. (if (x, y) \<in> fst ` set (body s) then put C (x, y) ''cyan'' s
                    else put C (x, y) ''light_blue'' s) \<bind> (\<lambda>s. Some (mark (x, y) s))) ?s1 =
        Some (replay (?row y) ?s1)"
  proof (rule for_each_replay_dep)
    fix pre' x post'
    assume cols: "py_range (19 - twin2_w y div 2) (19 + twin2_w y div 2) = pre' @ x # post'"
    let ?s2 = "replay (concat (map (\<lambda>x. twin2_cell ?K x y) pre')) ?s1"
    have x_new: "x \<notin> set pre'"
      using distinct_py_range cols by (metis split_not_before)
    have "(x, y) \<in> fst ` set (body ?s2) \<longleftrightarrow> (x, y) \<in> ?K"
      using x_new y_new by (auto simp: keys_replay dest!: twin2_cell_paint)
    then show "(if (x, y) \<in> fst ` set (body ?s2) then put C (x, y) ''cyan'' ?s2
                else put C (x, y) ''light_blue'' ?s2) \<bind> (\<lambda>s. Some (mark (x, y) s)) =
          Some (replay (twin2_cell ?K x y) ?s2)"
      by (simp add: put_def lookup_C twin2_cell_def replay_def)
  qed
qed

definition racecondition_fill_log :: "op list" where
  "racecondition_fill_log = twin1_log @ twin2_log {k. \<exists>v. Paint k v \<in> set twin1_log}"

lemma racecondition_fill_replay:
  "racecondition_fill C new_sprite = Some (replay racecondition_fill_log new_sprite)"
  by (simp add: racecondition_fill_def racecondition_twin1_replay racecondition_twin2_replay
        replay_new_keys racecondition_fill_log_def replay_append)

definition layer_log :: "int \<Rightarrow> int \<Rightarrow> int \<Rightarrow> int \<Rightarrow> color \<Rightarrow> op list" where
  "layer_log lx ly rx ry col =
     rows_log ly ry (\<lambda>y. lx) (\<lambda>y. rx) (\<lambda>x y. [Paint (x, y) col, Mark (x, y)]) @
     concat (map (\<lambda>x. [Paint (x, ly) (named ''yellow''), Paint (x, ry - 1) (named ''dark_brown'')]) (py_range lx rx)) @
     concat (map (\<lambda>y. [Paint (lx, y) (named ''yellow''), Paint (rx - 1, y) (named ''dark_brown'')]) (py_range ly ry))"

lemma stackoverflow_layer_replay:
  "stackoverflow_layer C (lx, ly, rx, ry, col) s = Some (replay (layer_log lx ly rx ry col) s)"
  unfolding stackoverflow_layer_def layer_log_def prod.case
proof (rule bind_replay)
  show "for_each (py_range ly ry) (\<lambda>y. for_each (py_range lx rx) (\<lambda>x s. Some (mark (x, y) (paint (x, y) col s)))) s =
        Some (replay (rows_log ly ry (\<lambda>y. lx) (\<lambda>y. rx) (\<lambda>x y. [Paint (x, y) col, Mark (x, y)])) s)"
    by (rule for_each_rows) (simp add: replay_def)
next
  fix s'
  show "for_each (py_range lx rx) (\<lambda>x s. put C (x, ly) ''yellow'' s \<bind> put C (x, ry - 1) ''dark_brown'') s' \<bind>
          for_each (py_range ly ry) (\<lambda>y s. put C (lx, y) ''yellow'' s \<bind> put C (rx - 1, y) ''dark_brown'') =
        Some (replay (concat (map (\<lambda>x. [Paint (x, ly) (named ''yellow''), Paint (x, ry - 1) (named ''dark_brown'')]) (py_range lx rx)) @
                      concat (map (\<lambda>y. [Paint (lx, y) (named ''yellow''), Paint (rx - 1, y) (named ''dark_brown'')]) (py_range ly ry))) s')"
  proof (rule bind_replay)
    show "for_each (py_range lx rx) (\<lambda>x s. put C (x, ly) ''yellow'' s \<bind> put C (x, ry - 1) ''dark_brown'') s' =
          Some (replay (concat (map (\<lambda>x. [Paint (x, ly) (named ''yellow''), Paint (x, ry - 1) (named ''dark_brown'')]) (py_range lx rx))) s')"
      by (rule for_each_replay) (simp add: put_def lookup_C replay_def)
  next
    fix s''
    show "for_each (py_range ly ry) (\<lambda>y s. put C (lx, y) ''yellow'' s \<bind> put C (rx - 1, y) ''dark_brown'') s'' =
          Some (replay (concat (map (\<lambda>y. [Paint (lx, y) (named ''yellow''), Paint (rx - 1, y) (named ''dark_brown'')]) (py_range ly ry))) s'')"
      by (rule for_each_replay) (simp add: put_def lookup_C replay_def)
  qed
qed

definition stackoverflow_fill_log :: "op list" where
  "stackoverflow_fill_log =
     layer_log 8 10 24 14 (named ''dark_red'') @ layer_log 7 14 25 18 (named ''red'') @
     layer_log 6 18 26 23 (named ''dark_red'') @ layer_log 5 23 27 27 (named ''red'')"

lemma stackoverflow_fill_replay: "stackoverflow_fill C s = Some (replay stackoverflow_fill_log s)"
  by (simp add: stackoverflow_fill_def lookup_C stackoverflow_layer_replay stackoverflow_fill_log_def
        replay_append)

section \<open>The overlays as runs of writes\<close>

lemma py_range_rec: "py_range a b = (if a < b then a # py_range (a + 1) b else [])"
  by (simp add: py_range_def upto_rec1)

definition nullpointer_overlay_log :: "op list" where
  "nullpointer_overlay_log =
     concat (map (\<lambda>x. map (\<lambda>y. Paint (x, y) (named ''dark_bg'')) [14, 15, 16]) [13, 14]) @
     concat (map (\<lambda>x. map (\<lambda>y. Paint (x, y) (named ''dark_bg'')) [14, 15, 16]) [18, 19]) @
     [Paint (13, 14) (named ''light_blue''), Paint (18, 14) (named ''light_blue''),
      Paint (14, 20) (named ''magenta''), Paint (16, 20) (named ''magenta''),
      Paint (18, 20) (named ''magenta'')]"

lemma nullpointer_overlay_replay: "nullpointer_overlay C s = Some (replay nullpointer_overlay_log s)"
  by (simp add: nullpointer_overlay_def nullpointer_overlay_log_def put_def lookup_C replay_def)

definition typemismatch_overlay_log :: "color \<Rightarrow> op list" where
  "typemismatch_overlay_log B =
     map (\<lambda>y. Paint (16, y) B) (py_range 8 26) @
     [Paint (13, 12) (named ''white''), Paint (14, 12) (named ''white''),
      Paint (13, 13) (named ''red''), Paint (14, 13) (named ''white''),
      Paint (18, 11) (named ''yellow''), Paint (19, 12) (named ''yellow''),
      Paint (18, 13) (named ''yellow'')] @
     map (\<lambda>x. Paint (x, 18) (named ''dark_bg'')) (py_range 13 20) @
     [Paint (14, 17) (named ''dark_bg''), Paint (18, 17) (named ''dark_bg'')]"

lemma typemismatch_overlay_replay:
  "typemismatch_overlay C B s = Some (replay (typemismatch_overlay_log B) s)"
  by (simp add: typemismatch_overlay_def typemismatch_overlay_log_def put_def lookup_C replay_def
        py_range_rec)

definition offbyone_overlay_log :: "op list" where
  "offbyone_overlay_log =
     [Paint (14, 7) (named ''light_green''), Paint (14, 6) (named ''light_green''),
      Paint (13, 5) (named ''light_green''), Paint (17, 7) (named ''light_green''),
      Paint (17, 6) (named ''light_green''), Paint (18, 5) (named ''light_green''),
      Paint (12, 13) (named ''white''), Paint (13, 13) (named ''white''),
      Paint (12, 14) (named ''yellow''), Paint (13, 14) (named ''white''),
      Paint (17, 12) (named ''white''), Paint (18, 12) (named ''white''),
      Paint (17, 13) (named ''yellow''), Paint (18, 13) (named ''white'')] @
     concat (map (\<lambda>dx. [Paint (10 + dx * 3, 24 + \<bar>dx\<bar>) (named ''dark_green''),
                         Paint (19 + dx * 3, 24 + \<bar>dx\<bar>) (named ''dark_green''),
                         Paint (10 + dx * 3, 25 + \<bar>dx\<bar>) (named ''dark_green''),
                         Paint (19 + dx * 3, 25 + \<bar>dx\<bar>) (named ''dark_green'')]) [- 1, 0, 1]) @
     [Paint (15, 19) (named ''yellow''), Paint (16, 19) (named ''yellow'')]"

lemma offbyone_overlay_replay: "offbyone_overlay C s = Some (replay offbyone_overlay_log s)"
  by (simp add: offbyone_overlay_def offbyone_overlay_log_def put_def lookup_C replay_def Let_def)

definition stackoverflow_overlay_log :: "op list" where
  "stackoverflow_overlay_log =
     concat (map (\<lambda>x. [Paint (x, 8) (named ''yellow''), Paint (x, 9) (named ''yellow'')]) [12, 16, 20]) @
     [Paint (11, 9) (named ''yellow''), Paint (21, 9) (named ''yellow'')] @
     map Mark [(12, 8), (16, 8), (20, 8), (12, 9), (16, 9), (20, 9), (11, 9), (21, 9)] @
     concat (map (\<lambda>x. [Paint (x, 12) (named ''yellow''), Paint (x, 13) (named ''yellow'')]) [12, 13]) @
     concat (map (\<lambda>x. [Paint (x, 12) (named ''yellow''), Paint (x, 13) (named ''yellow'')]) [19, 20]) @
     [Paint (13, 13) (named ''dark_bg''), Paint (19, 13) (named ''dark_bg'')] @
     map (\<lambda>x. Paint (x, 16) (named ''dark_bg'')) (py_range 13 20) @
     [Paint (14, 15) (named ''dark_bg''), Paint (18, 15) (named ''dark_bg'')] @
     concat (map (\<lambda>x. if x mod 2 = 0 then [Paint (x, 25) (named ''yellow'')] else []) (py_range 10 22))"

lemma stackoverflow_overlay_replay: "stackoverflow_overlay C s = Some (replay stackoverflow_overlay_log s)"
  by (simp add: stackoverflow_overlay_def stackoverflow_overlay_log_def put_def lookup_C replay_def
        mark_all_def py_range_rec)

definition racecondition_overlay_log :: "op list" where
  "racecondition_overlay_log =
     [Paint (12, 13) (named ''white''), Paint (13, 13) (named ''white''),
      Paint (12, 14) (named ''dark_bg''), Paint (18, 14) (named ''white''),
      Paint (19, 14) (named ''white''), Paint (19, 15) (named ''dark_bg'')] @
     concat (map (\<lambda>y. [Paint (7, y) (named ''dark_blue''), Paint (6, y) (named ''dark_blue''),
                        Paint (24, y + 1) (named ''dark_blue''), Paint (25, y + 1) (named ''dark_blue''),
                        Mark (7, y), Mark (6, y), Mark (24, y + 1), Mark (25, y + 1)]) [11, 15, 19])"

lemma racecondition_overlay_replay: "racecondition_overlay C s = Some (replay racecondition_overlay_log s)"
  by (simp add: racecondition_overlay_def racecondition_overlay_log_def put_def lookup_C replay_def
        mark_all_def)

definition memoryleak_overlay_log :: "op list" where
  "memoryleak_overlay_log =
     concat (map (\<lambda>(dx, len). concat (map (\<lambda>dy.
         [Paint (dx, 24 + dy) (if dy mod 2 = 0 then named ''green'' else named ''dark_green''),
          Mark (dx, 24 + dy)]) (py_range 0 len))) [(10, 3), (14, 5), (18, 4), (22, 2)]) @
     [Paint (12, 13) (named ''white''), Paint (13, 13) (named ''white''),
      Paint (12, 14) (named ''white''), Paint (13, 14) (named ''dark_bg''),
      Paint (19, 13) (named ''white''), Paint (20, 13) (named ''white''),
      Paint (19, 14) (named ''dark_bg''), Paint (20, 14) (named ''white''),
      Paint (15, 18) (named ''dark_green''), Paint (16, 18) (named ''dark_green''),
      Paint (17, 18) (named ''dark_green''), Paint (16, 19) (named ''dark_green''),
      Paint (16, 20) (named ''dark_green''), Paint (22, 9) (named ''light_green''),
      Paint (24, 7) (named ''light_green''), Paint (23, 8) (named ''light_green'')] @
     map Mark [(22, 9), (24, 7), (23, 8)]"

lemma memoryleak_overlay_replay: "memoryleak_overlay C s = Some (replay memoryleak_overlay_log s)"
  by (simp add: memoryleak_overlay_def memoryleak_overlay_log_def put_def lookup_C replay_def
        mark_all_def py_range_rec Let_def)

definition deadlock_overlay_log :: "op list" where
  "deadlock_overlay_log =
     concat (map (\<lambda>p. [Paint p (named ''brown''), Mark p])
       [(7, 14), (8, 13), (8, 15), (7, 16), (6, 15), (6, 13)]) @
     concat (map (\<lambda>p. [Paint p (named ''brown''), Mark p])
       [(25, 14), (24, 13), (24, 15), (25, 16), (26, 15), (26, 13)]) @
     concat (map (\<lambda>x. [Paint (x, 16) (named ''yellow''), Paint (x, 17) (named ''yellow'')]) (py_range 14 19)) @
     [Paint (15, 14) (named ''yellow''), Paint (17, 14) (named ''yellow''),
      Paint (15, 15) (named ''yellow''), Paint (17, 15) (named ''yellow''),
      Paint (16, 17) (named ''dark_bg''),
      Paint (12, 12) (named ''red''), Paint (13, 12) (named ''red''),
      Paint (19, 12) (named ''red''), Paint (20, 12) (named ''red'')] @
     map (\<lambda>x. Paint (x, 19) (named ''dark_bg'')) (py_range 13 20) @
     [Paint (13, 18) (named ''dark_bg''), Paint (19, 18) (named ''dark_bg'')]"

lemma deadlock_overlay_replay: "deadlock_overlay C s = Some (replay deadlock_overlay_log s)"
  by (simp add: deadlock_overlay_def deadlock_overlay_log_def put_def lookup_C replay_def
        py_range_rec Let_def)

definition heisenbug_overlay_log :: "op list" where
  "heisenbug_overlay_log =
     concat (map (\<lambda>x. [Paint (x, 4) (named ''magenta''), Paint (x, 3) (named ''magenta''),
                        Mark (x, 4), Mark (x, 3)]) [11, 14, 16, 18, 21]) @
     concat (map (\<lambda>(ex, ey). [Paint (ex, ey) (named ''white''), Paint (ex + 1, ey) (named ''white''),
                              Paint (ex, ey + 1) (named ''yellow''), Paint (ex + 1, ey + 1) (named ''white'')])
       [(11, 13), (14, 11), (18, 11), (21, 13)]) @
     map (\<lambda>x. Paint (x, 18 + (if x mod 3 = 0 then 1 else 0)) (named ''dark_bg'')) (py_range 11 22) @
     concat (map (\<lambda>p. [Paint p (named ''light_blue''), Mark p])
       [(6, 8), (26, 10), (5, 18), (27, 16), (8, 25), (24, 26)]) @
     [Paint (16, 21) (named ''yellow''), Paint (16, 23) (named ''yellow'')]"

lemma heisenbug_overlay_replay: "heisenbug_overlay C s = Some (replay heisenbug_overlay_log s)"
  by (simp add: heisenbug_overlay_def heisenbug_overlay_log_def put_def lookup_C replay_def
        mark_all_def py_range_rec Let_def)

section \<open>No write leaves the canvas\<close>

definition no_outside :: "sprite \<Rightarrow> bool" where
  "no_outside s = (\<forall>p. \<not> in_canvas p \<longrightarrow> p \<notin> fst ` set (body s) \<and> p \<notin> set (body_set s))"

definition log_inside :: "op list \<Rightarrow> bool" where
  "log_inside ops = (\<forall>a \<in> set ops. case a of Paint k v \<Rightarrow> in_canvas k | Mark k \<Rightarrow> in_canvas k)"

lemma log_inside_append: "log_inside (a @ b) \<longleftrightarrow> log_inside a \<and> log_inside b"
  by (auto simp: log_inside_def)

lemma no_outside_replay:
  assumes "log_inside ops"
  shows "no_outside (replay ops new_sprite)"
  unfolding no_outside_def replay_new_keys replay_new_marks
  using assms by (force simp: log_inside_def)

lemma rows_log_inside:
  assumes "\<And>x y. y0 \<le> y \<Longrightarrow> y < y1 \<Longrightarrow> lo y \<le> x \<Longrightarrow> x < hi y \<Longrightarrow> log_inside (cell x y)"
  shows "log_inside (rows_log y0 y1 lo hi cell)"
  unfolding log_inside_def
proof
  fix a assume "a \<in> set (rows_log y0 y1 lo hi cell)"
  then obtain x y where "y0 \<le> y" "y < y1" "lo y \<le> x" "x < hi y" "a \<in> set (cell x y)"
    unfolding in_rows_log by blast
  with assms[of y x] show "case a of Paint k v \<Rightarrow> in_canvas k | Mark k \<Rightarrow> in_canvas k"
    by (simp add: log_inside_def)
qed

lemma nullpointer_w_half: "8 \<le> y \<Longrightarrow> y < 26 \<Longrightarrow> 0 \<le> nullpointer_w y div 2 \<and> nullpointer_w y div 2 \<le> 5"
  by (auto simp: nullpointer_w_def min_def max_def)

lemma nullpointer_fill_inside: "log_inside (nullpointer_fill_log)"
  unfolding nullpointer_fill_log_def
proof (rule rows_log_inside)
  fix x y :: int
  assume "8 \<le> y" "y < 26" "16 - nullpointer_w y div 2 \<le> x" "x < 16 + nullpointer_w y div 2"
  with nullpointer_w_half[of y] show "log_inside
     (nullpointer_cell x y)"
    by (auto simp: log_inside_def in_canvas_def nullpointer_cell_def)
qed

lemma typemismatch_w_half: "6 \<le> y \<Longrightarrow> y < 28 \<Longrightarrow> 0 \<le> typemismatch_w y div 2 \<and> typemismatch_w y div 2 \<le> 7"
  by (auto simp: typemismatch_w_def min_def max_def)

lemma typemismatch_fill_inside: "log_inside (typemismatch_fill_log)"
  unfolding typemismatch_fill_log_def
proof (rule rows_log_inside)
  fix x y :: int
  assume "6 \<le> y" "y < 28" "16 - typemismatch_w y div 2 \<le> x" "x < 16 + typemismatch_w y div 2"
  with typemismatch_w_half[of y] show "log_inside
     (typemismatch_cell x y)"
    by (auto simp: log_inside_def in_canvas_def typemismatch_cell_def)
qed

lemma offbyone_w_half: "8 \<le> y \<Longrightarrow> y < 26 \<Longrightarrow> 0 \<le> offbyone_w y div 2 \<and> offbyone_w y div 2 \<le> 6"
  by (auto simp: offbyone_w_def min_def max_def)

lemma offbyone_fill_inside: "log_inside (offbyone_fill_log)"
  unfolding offbyone_fill_log_def
proof (rule rows_log_inside)
  fix x y :: int
  assume "8 \<le> y" "y < 26" "15 - offbyone_w y div 2 \<le> x" "x < 15 + offbyone_w y div 2"
  with offbyone_w_half[of y] show "log_inside
     (offbyone_cell x y)"
    by (auto simp: log_inside_def in_canvas_def offbyone_cell_def)
qed

lemma memoryleak_w_half: "7 \<le> y \<Longrightarrow> y < 24 \<Longrightarrow> 0 \<le> memoryleak_w y div 2 \<and> memoryleak_w y div 2 \<le> 8"
  by (auto simp: memoryleak_w_def min_def max_def)

lemma memoryleak_fill_inside: "log_inside (memoryleak_fill_log)"
  unfolding memoryleak_fill_log_def
proof (rule rows_log_inside)
  fix x y :: int
  assume "7 \<le> y" "y < 24" "16 - memoryleak_w y div 2 \<le> x" "x < 16 + memoryleak_w y div 2"
  with memoryleak_w_half[of y] show "log_inside
     (memoryleak_cell x y)"
    by (auto simp: log_inside_def in_canvas_def memoryleak_cell_def)
qed

lemma deadlock_w_half: "9 \<le> y \<Longrightarrow> y < 25 \<Longrightarrow> 0 \<le> deadlock_w y div 2 \<and> deadlock_w y div 2 \<le> 7"
  by (auto simp: deadlock_w_def min_def max_def)

lemma deadlock_fill_inside: "log_inside (deadlock_fill_log)"
  unfolding deadlock_fill_log_def
proof (rule rows_log_inside)
  fix x y :: int
  assume "9 \<le> y" "y < 25" "16 - deadlock_w y div 2 \<le> x" "x < 16 + deadlock_w y div 2"
  with deadlock_w_half[of y] show "log_inside
     (deadlock_cell x y)"
    by (auto simp: log_inside_def in_canvas_def deadlock_cell_def)
qed

lemma heisenbug_w_half: "5 \<le> y \<Longrightarrow> y < 28 \<Longrightarrow> 0 \<le> heisenbug_w y div 2 \<and> heisenbug_w y div 2 \<le> 9"
  by (auto simp: heisenbug_w_def min_def max_def)

lemma heisenbug_fill_inside: "log_inside (heisenbug_fill_log)"
  unfolding heisenbug_fill_log_def
proof (rule rows_log_inside)
  fix x y :: int
  assume "5 \<le> y" "y < 28" "16 - heisenbug_w y div 2 \<le> x" "x < 16 + heisenbug_w y div 2"
  with heisenbug_w_half[of y] show "log_inside
     (heisenbug_cell x y)"
    by (auto simp: log_inside_def in_canvas_def heisenbug_cell_def)
qed

lemma twin1_w_half: "8 \<le> y \<Longrightarrow> y < 24 \<Longrightarrow> 0 \<le> twin1_w y div 2 \<and> twin1_w y div 2 \<le> 4"
  by (auto simp: twin1_w_def min_def max_def)

lemma twin1_inside: "log_inside (twin1_log)"
  unfolding twin1_log_def
proof (rule rows_log_inside)
  fix x y :: int
  assume "8 \<le> y" "y < 24" "13 - twin1_w y div 2 \<le> x" "x < 13 + twin1_w y div 2"
  with twin1_w_half[of y] show "log_inside
     (twin1_cell x y)"
    by (auto simp: log_inside_def in_canvas_def twin1_cell_def)
qed

lemma twin2_w_half: "9 \<le> y \<Longrightarrow> y < 25 \<Longrightarrow> 0 \<le> twin2_w y div 2 \<and> twin2_w y div 2 \<le> 4"
  by (auto simp: twin2_w_def min_def max_def)

lemma twin2_inside: "log_inside (twin2_log K)"
  unfolding twin2_log_def
proof (rule rows_log_inside)
  fix x y :: int
  assume "9 \<le> y" "y < 25" "19 - twin2_w y div 2 \<le> x" "x < 19 + twin2_w y div 2"
  with twin2_w_half[of y] show "log_inside
     (twin2_cell K x y)"
    by (auto simp: log_inside_def in_canvas_def twin2_cell_def)
qed

lemma racecondition_fill_inside: "log_inside racecondition_fill_log"
  by (simp add: racecondition_fill_log_def log_inside_append twin1_inside twin2_inside)

lemma layer_inside:
  assumes "0 \<le> lx" "rx \<le> 32" "0 \<le> ly" "ry \<le> 32" "lx < rx" "ly < ry"
  shows "log_inside (layer_log lx ly rx ry col)"
  unfolding layer_log_def log_inside_append
proof (intro conjI)
  show "log_inside (rows_log ly ry (\<lambda>y. lx) (\<lambda>y. rx) (\<lambda>x y. [Paint (x, y) col, Mark (x, y)]))"
    using assms by (intro rows_log_inside) (auto simp: log_inside_def in_canvas_def)
  show "log_inside (concat (map (\<lambda>x. [Paint (x, ly) (named ''yellow''), Paint (x, ry - 1) (named ''dark_brown'')]) (py_range lx rx)))"
    using assms by (auto simp: log_inside_def in_canvas_def set_py_range)
  show "log_inside (concat (map (\<lambda>y. [Paint (lx, y) (named ''yellow''), Paint (rx - 1, y) (named ''dark_brown'')]) (py_range ly ry)))"
    using assms by (auto simp: log_inside_def in_canvas_def set_py_range)
qed

lemma stackoverflow_fill_inside: "log_inside stackoverflow_fill_log"
  by (simp add: stackoverflow_fill_log_def log_inside_append layer_inside)

lemma nullpointer_overlay_inside: "log_inside nullpointer_overlay_log"
  by (simp add: nullpointer_overlay_log_def log_inside_def in_canvas_def)

lemma typemismatch_overlay_inside: "log_inside (typemismatch_overlay_log B)"
  by (simp add: typemismatch_overlay_log_def log_inside_def in_canvas_def py_range_rec)

lemma offbyone_overlay_inside: "log_inside offbyone_overlay_log"
  by (simp add: offbyone_overlay_log_def log_inside_def in_canvas_def)

lemma stackoverflow_overlay_inside: "log_inside stackoverflow_overlay_log"
  by (simp add: stackoverflow_overlay_log_def log_inside_def in_canvas_def py_range_rec)

lemma racecondition_overlay_inside: "log_inside racecondition_overlay_log"
  by (simp add: racecondition_overlay_log_def log_inside_def in_canvas_def)

lemma memoryleak_overlay_inside: "log_inside memoryleak_overlay_log"
  by (simp add: memoryleak_overlay_log_def log_inside_def in_canvas_def py_range_rec)

lemma deadlock_overlay_inside: "log_inside deadlock_overlay_log"
  by (simp add: deadlock_overlay_log_def log_inside_def in_canvas_def py_range_rec)

lemma heisenbug_overlay_inside: "log_inside heisenbug_overlay_log"
  by (simp add: heisenbug_overlay_log_def log_inside_def in_canvas_def py_range_rec)

lemma nullpointer_body_replay:
  "nullpointer_body C = Some (replay (nullpointer_fill_log @ nullpointer_overlay_log) new_sprite)"
  by (simp add: nullpointer_body_def nullpointer_fill_replay nullpointer_overlay_replay replay_append)

lemma typemismatch_body_replay:
  "typemismatch_body C B = Some (replay (typemismatch_fill_log @ typemismatch_overlay_log B) new_sprite)"
  by (simp add: typemismatch_body_def typemismatch_fill_replay typemismatch_overlay_replay replay_append)

lemma offbyone_body_replay:
  "offbyone_body C = Some (replay (offbyone_fill_log @ offbyone_overlay_log) new_sprite)"
  by (simp add: offbyone_body_def offbyone_fill_replay offbyone_overlay_replay replay_append)

lemma stackoverflow_body_replay:
  "stackoverflow_body C = Some (replay (stackoverflow_fill_log @ stackoverflow_overlay_log) new_sprite)"
  by (simp add: stackoverflow_body_def stackoverflow_fill_replay stackoverflow_overlay_replay replay_append)

lemma racecondition_body_replay:
  "racecondition_body C = Some (replay (racecondition_fill_log @ racecondition_overlay_log) new_sprite)"
  by (simp add: racecondition_body_def racecondition_fill_replay racecondition_overlay_replay replay_append)

lemma memoryleak_body_replay:
  "memoryleak_body C = Some (replay (memoryleak_fill_log @ memoryleak_overlay_log) new_sprite)"
  by (simp add: memoryleak_body_def memoryleak_fill_replay memoryleak_overlay_replay replay_append)

lemma deadlock_body_replay:
  "deadlock_body C = Some (replay (deadlock_fill_log @ deadlock_overlay_log) new_sprite)"
  by (simp add: deadlock_body_def deadlock_fill_replay deadlock_overlay_replay replay_append)

lemma heisenbug_body_replay:
  "heisenbug_body C = Some (replay (heisenbug_fill_log @ heisenbug_overlay_log) new_sprite)"
  by (simp add: heisenbug_body_def heisenbug_fill_replay heisenbug_overlay_replay replay_append)

text \<open>
  The eight shapes as shipped: neither the sprite a shape fill leaves (shifted rows
  included) nor the sprite after the overlay statements holds a coordinate outside the
  canvas.
\<close>

lemma shipped_sprites_inside:
  "(\<exists>f s. nullpointer_fill C new_sprite = Some f \<and> no_outside f \<and>
          nullpointer_body C = Some s \<and> no_outside s) \<and>
   (\<exists>f s. typemismatch_fill C new_sprite = Some f \<and> no_outside f \<and>
          typemismatch_body C B = Some s \<and> no_outside s) \<and>
   (\<exists>f s. offbyone_fill C new_sprite = Some f \<and> no_outside f \<and>
          offbyone_body C = Some s \<and> no_outside s) \<and>
   (\<exists>f s. stackoverflow_fill C new_sprite = Some f \<and> no_outside f \<and>
          stackoverflow_body C = Some s \<and> no_outside s) \<and>
   (\<exists>f s. racecondition_fill C new_sprite = Some f \<and> no_outside f \<and>
          racecondition_body C = Some s \<and> no_outside s) \<and>
   (\<exists>f s. memoryleak_fill C new_sprite = Some f \<and> no_outside f \<and>
          memoryleak_body C = Some s \<and> no_outside s) \<and>
   (\<exists>f s. deadlock_fill C new_sprite = Some f \<and> no_outside f \<and>
          deadlock_body C = Some s \<and> no_outside s) \<and>
   (\<exists>f s. heisenbug_fill C new_sprite = Some f \<and> no_outside f \<and>
          heisenbug_body C = Some s \<and> no_outside s)"
proof (intro conjI)
  show "\<exists>f s. nullpointer_fill C new_sprite = Some f \<and> no_outside f \<and>
          nullpointer_body C = Some s \<and> no_outside s"
    by (simp add: nullpointer_fill_replay nullpointer_body_replay no_outside_replay
          log_inside_append nullpointer_fill_inside nullpointer_overlay_inside)
  show "\<exists>f s. typemismatch_fill C new_sprite = Some f \<and> no_outside f \<and>
          typemismatch_body C B = Some s \<and> no_outside s"
    by (simp add: typemismatch_fill_replay typemismatch_body_replay no_outside_replay
          log_inside_append typemismatch_fill_inside typemismatch_overlay_inside in_canvas_def)
  show "\<exists>f s. offbyone_fill C new_sprite = Some f \<and> no_outside f \<and>
          offbyone_body C = Some s \<and> no_outside s"
    by (simp add: offbyone_fill_replay offbyone_body_replay no_outside_replay
          log_inside_append offbyone_fill_inside offbyone_overlay_inside)
  show "\<exists>f s. stackoverflow_fill C new_sprite = Some f \<and> no_outside f \<and>
          stackoverflow_body C = Some s \<and> no_outside s"
    by (simp add: stackoverflow_fill_replay stackoverflow_body_replay no_outside_replay
          log_inside_append stackoverflow_fill_inside stackoverflow_overlay_inside)
  show "\<exists>f s. racecondition_fill C new_sprite = Some f \<and> no_outside f \<and>
          racecondition_body C = Some s \<and> no_outside s"
    by (simp add: racecondition_fill_replay racecondition_body_replay no_outside_replay
          log_inside_append racecondition_fill_inside racecondition_overlay_inside)
  show "\<exists>f s. memoryleak_fill C new_sprite = Some f \<and> no_outside f \<and>
          memoryleak_body C = Some s \<and> no_outside s"
    by (simp add: memoryleak_fill_replay memoryleak_body_replay no_outside_replay
          log_inside_append memoryleak_fill_inside memoryleak_overlay_inside)
  show "\<exists>f s. deadlock_fill C new_sprite = Some f \<and> no_outside f \<and>
          deadlock_body C = Some s \<and> no_outside s"
    by (simp add: deadlock_fill_replay deadlock_body_replay no_outside_replay
          log_inside_append deadlock_fill_inside deadlock_overlay_inside)
  show "\<exists>f s. heisenbug_fill C new_sprite = Some f \<and> no_outside f \<and>
          heisenbug_body C = Some s \<and> no_outside s"
    by (simp add: heisenbug_fill_replay heisenbug_body_replay no_outside_replay
          log_inside_append heisenbug_fill_inside heisenbug_overlay_inside)
qed

section \<open>Failing lookups, and the run with the shipped palette\<close>

lemma for_each_None:
  assumes "x \<in> set xs" and "\<And>s. f x s = None"
  shows "for_each xs f s = None"
  using assms(1)
proof (induction xs arbitrary: s)
  case Nil
  then show ?case by simp
next
  case (Cons a xs)
  show ?case
  proof (cases "a = x")
    case True
    then show ?thesis by (simp add: assms(2))
  next
    case False
    with Cons.prems have "x \<in> set xs" by simp
    then have "\<And>s'. for_each xs f s' = None" by (rule Cons.IH)
    then show ?thesis by (simp split: option.splits)
  qed
qed

text \<open>A generator that fails ends the run: nothing catches the exception.\<close>

lemma script_None:
  "(\<And>T B. nullpointer P T B = None) \<Longrightarrow> script P = None"
  "(\<And>T B. typemismatch P T B = None) \<Longrightarrow> script P = None"
  "(\<And>T B. offbyone P T B = None) \<Longrightarrow> script P = None"
  "(\<And>T B. stackoverflow_boss P T B = None) \<Longrightarrow> script P = None"
  "(\<And>T B. racecondition P T B = None) \<Longrightarrow> script P = None"
  "(\<And>T B. memoryleak P T B = None) \<Longrightarrow> script P = None"
  "(\<And>T B. deadlock P T B = None) \<Longrightarrow> script P = None"
  "(\<And>T B. heisenbug_boss P T B = None) \<Longrightarrow> script P = None"
  by (simp_all add: script_def main_def)

lemma missing_transparent: "lookup P ''transparent'' = None \<Longrightarrow> script P = None"
  by (simp add: script_def)

lemma missing_black: "lookup P ''black'' = None \<Longrightarrow> script P = None"
  by (simp add: script_def)

lemma missing_purple: "lookup P ''purple'' = None \<Longrightarrow> script P = None"
  by (rule script_None(8)) (simp add: heisenbug_boss_def heisenbug_body_def heisenbug_fill_def)

lemma missing_blue: "lookup P ''blue'' = None \<Longrightarrow> script P = None"
  by (rule script_None(8)) (simp add: heisenbug_boss_def heisenbug_body_def heisenbug_fill_def)

lemma missing_cyan: "lookup P ''cyan'' = None \<Longrightarrow> script P = None"
  by (rule script_None(8)) (simp add: heisenbug_boss_def heisenbug_body_def heisenbug_fill_def)

lemma missing_light_blue: "lookup P ''light_blue'' = None \<Longrightarrow> script P = None"
  by (rule script_None(8)) (simp add: heisenbug_boss_def heisenbug_body_def heisenbug_fill_def)

lemma missing_magenta: "lookup P ''magenta'' = None \<Longrightarrow> script P = None"
  by (rule script_None(8)) (simp add: heisenbug_boss_def heisenbug_body_def heisenbug_fill_def)

lemma missing_dark_red: "lookup P ''dark_red'' = None \<Longrightarrow> script P = None"
  by (rule script_None(4)) (simp add: stackoverflow_boss_def stackoverflow_body_def stackoverflow_fill_def)

lemma missing_red: "lookup P ''red'' = None \<Longrightarrow> script P = None"
  by (rule script_None(4)) (simp add: stackoverflow_boss_def stackoverflow_body_def stackoverflow_fill_def)

lemma missing_yellow: "lookup P ''yellow'' = None \<Longrightarrow> script P = None"
  by (rule script_None(4))
     (simp add: stackoverflow_boss_def stackoverflow_body_def stackoverflow_overlay_def put_def)

lemma missing_dark_bg: "lookup P ''dark_bg'' = None \<Longrightarrow> script P = None"
  by (rule script_None(1))
     (simp add: nullpointer_def nullpointer_body_def nullpointer_overlay_def put_def)

lemma missing_white: "lookup P ''white'' = None \<Longrightarrow> script P = None"
  by (rule script_None(5))
     (simp add: racecondition_def racecondition_body_def racecondition_overlay_def put_def)

lemma missing_dark_blue: "lookup P ''dark_blue'' = None \<Longrightarrow> script P = None"
  by (rule script_None(5))
     (simp add: racecondition_def racecondition_body_def racecondition_overlay_def put_def)

lemma missing_light_green: "lookup P ''light_green'' = None \<Longrightarrow> script P = None"
  by (rule script_None(3))
     (simp add: offbyone_def offbyone_body_def offbyone_overlay_def put_def)

lemma missing_dark_green: "lookup P ''dark_green'' = None \<Longrightarrow> script P = None"
  by (rule script_None(6))
     (simp add: memoryleak_def memoryleak_body_def memoryleak_overlay_def put_def)

lemma missing_brown: "lookup P ''brown'' = None \<Longrightarrow> script P = None"
  by (rule script_None(7))
     (simp add: deadlock_def deadlock_body_def deadlock_overlay_def put_def)

lemma missing_green: "lookup P ''green'' = None \<Longrightarrow> script P = None"
  by (rule script_None(6))
     (simp add: memoryleak_def memoryleak_body_def memoryleak_overlay_def put_def py_range_rec)


lemma in_py_range: "a \<le> x \<Longrightarrow> x < b \<Longrightarrow> x \<in> set (py_range a b)"
  by (simp add: set_py_range)

lemma missing_dark_purple:
  assumes "lookup P ''dark_purple'' = None"
  shows "script P = None"
proof (rule script_None(1))
  fix T B
  have "nullpointer_fill P s = None" for s
    unfolding nullpointer_fill_def
  proof (rule for_each_None [where x = 18])
    show "18 \<in> set (py_range 8 26)" by (simp add: in_py_range)
    fix s
    show "(let w = if (18::int) < 12 then min ((18 - 8) * 2 + 2) 10 else if (18::int) < 22 then 10 else 10
           in for_each (py_range (16 - w div 2) (16 + w div 2))
                (\<lambda>x s. if 22 \<le> (18::int) \<and> (x + 18) mod 3 = 0 then Some s
                       else (if (18::int) < 18 then lookup P ''purple'' else lookup P ''dark_purple'') \<bind>
                            (\<lambda>col. Some (mark (x, 18) (paint (x, 18) col s))))) s = None"
      unfolding Let_def
      by (rule for_each_None [where x = 11]) (simp_all add: in_py_range assms)
  qed
  then show "nullpointer P T B = None"
    by (simp add: nullpointer_def nullpointer_body_def)
qed

lemma missing_orange:
  assumes "lookup P ''orange'' = None"
  shows "script P = None"
proof (rule script_None(2))
  fix T B
  have "typemismatch_fill P s = None" for s
    unfolding typemismatch_fill_def
  proof (rule for_each_None [where x = 6])
    show "6 \<in> set (py_range 6 28)" by (simp add: in_py_range)
    fix s
    show "(let w = typemismatch_w 6; cx = 16
           in for_each (py_range (cx - w div 2) (cx + w div 2)) (\<lambda>x. typemismatch_pixel P cx x 6)) s = None"
      unfolding Let_def
      by (rule for_each_None [where x = 16])
         (simp_all add: in_py_range typemismatch_w_def typemismatch_pixel_def assms)
  qed
  then show "typemismatch P T B = None"
    by (simp add: typemismatch_def typemismatch_body_def)
qed

lemma missing_gray:
  assumes "lookup P ''gray'' = None"
  shows "script P = None"
proof (rule script_None(7))
  fix T B
  have "deadlock_fill P s = None" for s
    unfolding deadlock_fill_def
  proof (rule for_each_None [where x = 9])
    show "9 \<in> set (py_range 9 25)" by (simp add: in_py_range)
    fix s
    show "(let w = if (9::int) < 13 then min ((9 - 9) * 2 + 6) 14 else if (9::int) < 21 then 14 else max (14 - (9 - 21) * 2) 6;
               cx = 16
           in for_each (py_range (cx - w div 2) (cx + w div 2))
                (\<lambda>x s. (if (x + 9) mod 2 = 0 then lookup P ''gray'' else lookup P ''dark_gray'') \<bind>
                       (\<lambda>col. Some (mark (x, 9) (paint (x, 9) col s))))) s = None"
      unfolding Let_def
      by (rule for_each_None [where x = 13]) (simp_all add: in_py_range assms)
  qed
  then show "deadlock P T B = None"
    by (simp add: deadlock_def deadlock_body_def)
qed

lemma missing_dark_gray:
  assumes "lookup P ''dark_gray'' = None"
  shows "script P = None"
proof (rule script_None(7))
  fix T B
  have "deadlock_fill P s = None" for s
    unfolding deadlock_fill_def
  proof (rule for_each_None [where x = 9])
    show "9 \<in> set (py_range 9 25)" by (simp add: in_py_range)
    fix s
    show "(let w = if (9::int) < 13 then min ((9 - 9) * 2 + 6) 14 else if (9::int) < 21 then 14 else max (14 - (9 - 21) * 2) 6;
               cx = 16
           in for_each (py_range (cx - w div 2) (cx + w div 2))
                (\<lambda>x s. (if (x + 9) mod 2 = 0 then lookup P ''gray'' else lookup P ''dark_gray'') \<bind>
                       (\<lambda>col. Some (mark (x, 9) (paint (x, 9) col s))))) s = None"
      unfolding Let_def
      by (rule for_each_None [where x = 14]) (simp_all add: in_py_range assms)
  qed
  then show "deadlock P T B = None"
    by (simp add: deadlock_def deadlock_body_def)
qed

lemma missing_dark_brown:
  assumes "lookup P ''dark_brown'' = None"
  shows "script P = None"
proof (rule script_None(4))
  fix T B
  have frame: "for_each (py_range 8 24)
        (\<lambda>x s. put P (x, 10) ''yellow'' s \<bind> put P (x, 13) ''dark_brown'') s = None" for s
    by (rule for_each_None [where x = 8]) (simp_all add: in_py_range put_def assms)
  have "stackoverflow_layer P (8, 10, 24, 14, c) s = None" for c s
    by (simp add: stackoverflow_layer_def frame)
  then have "stackoverflow_fill P s = None" for s
    by (simp add: stackoverflow_fill_def)
  then show "stackoverflow_boss P T B = None"
    by (simp add: stackoverflow_boss_def stackoverflow_body_def)
qed

lemma make_sprite_total: "\<exists>img. make_sprite pm T = Some img \<and> canvas32 img"
  using for_each_raster[OF canvas32_new, of pm T] by (auto simp: make_sprite_raster)

definition referenced :: "string list" where
  "referenced =
     [''transparent'', ''black'', ''dark_bg'', ''red'', ''dark_red'', ''orange'', ''yellow'',
      ''green'', ''dark_green'', ''light_green'', ''blue'', ''dark_blue'', ''light_blue'',
      ''purple'', ''dark_purple'', ''magenta'', ''white'', ''gray'', ''dark_gray'', ''brown'',
      ''dark_brown'', ''cyan'']"

lemma script_C: "\<exists>imgs. script C = Some imgs \<and> length imgs = 8 \<and> list_all canvas32 imgs"
proof -
  let ?T = "named ''transparent''" and ?B = "named ''black''"
  obtain i1 where i1: "nullpointer C ?T ?B = Some i1" "canvas32 i1"
    using make_sprite_total by (auto simp: nullpointer_def nullpointer_body_replay)
  obtain i2 where i2: "typemismatch C ?T ?B = Some i2" "canvas32 i2"
    using make_sprite_total by (auto simp: typemismatch_def typemismatch_body_replay)
  obtain i3 where i3: "offbyone C ?T ?B = Some i3" "canvas32 i3"
    using make_sprite_total by (auto simp: offbyone_def offbyone_body_replay)
  obtain i4 where i4: "stackoverflow_boss C ?T ?B = Some i4" "canvas32 i4"
    using make_sprite_total by (auto simp: stackoverflow_boss_def stackoverflow_body_replay)
  obtain i5 where i5: "racecondition C ?T ?B = Some i5" "canvas32 i5"
    using make_sprite_total by (auto simp: racecondition_def racecondition_body_replay)
  obtain i6 where i6: "memoryleak C ?T ?B = Some i6" "canvas32 i6"
    using make_sprite_total by (auto simp: memoryleak_def memoryleak_body_replay)
  obtain i7 where i7: "deadlock C ?T ?B = Some i7" "canvas32 i7"
    using make_sprite_total by (auto simp: deadlock_def deadlock_body_replay)
  obtain i8 where i8: "heisenbug_boss C ?T ?B = Some i8" "canvas32 i8"
    using make_sprite_total by (auto simp: heisenbug_boss_def heisenbug_body_replay)
  have "script C = Some [i1, i2, i3, i4, i5, i6, i7, i8]"
    by (simp add: script_def main_def lookup_C i1 i2 i3 i4 i5 i6 i7 i8)
  then show ?thesis using i1 i2 i3 i4 i5 i6 i7 i8 by simp
qed

text \<open>
  Claim C9. A colour name that the palette does not register makes the lookup fail, and
  the failure ends the whole run: whichever of the 22 names the script refers to is
  missing, \<^const>\<open>script\<close> returns nothing. The palette \<^const>\<open>C\<close> registers all of them,
  and with it the run returns its eight images: no lookup fails.
\<close>

theorem unregistered_name_aborts_batch:
  "(name \<in> set referenced \<longrightarrow> lookup P name = None \<longrightarrow> script P = None) \<and>
   list_all (\<lambda>name. lookup C name \<noteq> None) referenced \<and>
   (\<exists>imgs. script C = Some imgs \<and> length imgs = 8)"
proof (intro conjI impI)
  assume "name \<in> set referenced" and none: "lookup P name = None"
  then consider "name = ''transparent''" | "name = ''black''" | "name = ''dark_bg''"
    | "name = ''red''" | "name = ''dark_red''" | "name = ''orange''" | "name = ''yellow''"
    | "name = ''green''" | "name = ''dark_green''" | "name = ''light_green''" | "name = ''blue''"
    | "name = ''dark_blue''" | "name = ''light_blue''" | "name = ''purple''"
    | "name = ''dark_purple''" | "name = ''magenta''" | "name = ''white''" | "name = ''gray''"
    | "name = ''dark_gray''" | "name = ''brown''" | "name = ''dark_brown''" | "name = ''cyan''"
    unfolding referenced_def by fastforce
  then show "script P = None"
  proof cases
    case 1 with none show ?thesis by (simp add: missing_transparent) next
    case 2 with none show ?thesis by (simp add: missing_black) next
    case 3 with none show ?thesis by (simp add: missing_dark_bg) next
    case 4 with none show ?thesis by (simp add: missing_red) next
    case 5 with none show ?thesis by (simp add: missing_dark_red) next
    case 6 with none show ?thesis by (simp add: missing_orange) next
    case 7 with none show ?thesis by (simp add: missing_yellow) next
    case 8 with none show ?thesis by (simp add: missing_green) next
    case 9 with none show ?thesis by (simp add: missing_dark_green) next
    case 10 with none show ?thesis by (simp add: missing_light_green) next
    case 11 with none show ?thesis by (simp add: missing_blue) next
    case 12 with none show ?thesis by (simp add: missing_dark_blue) next
    case 13 with none show ?thesis by (simp add: missing_light_blue) next
    case 14 with none show ?thesis by (simp add: missing_purple) next
    case 15 with none show ?thesis by (simp add: missing_dark_purple) next
    case 16 with none show ?thesis by (simp add: missing_magenta) next
    case 17 with none show ?thesis by (simp add: missing_white) next
    case 18 with none show ?thesis by (simp add: missing_gray) next
    case 19 with none show ?thesis by (simp add: missing_dark_gray) next
    case 20 with none show ?thesis by (simp add: missing_brown) next
    case 21 with none show ?thesis by (simp add: missing_dark_brown) next
    case 22 with none show ?thesis by (simp add: missing_cyan)
  qed
next
  show "list_all (\<lambda>name. lookup C name \<noteq> None) referenced"
    by (simp add: referenced_def lookup_C)
next
  show "\<exists>imgs. script C = Some imgs \<and> length imgs = 8"
    using script_C by blast
qed

theorem unregistered_name_aborts_batch_witness:
  "''cyan'' \<in> set referenced \<and>
   lookup (filter (\<lambda>(name, col). name \<noteq> ''cyan'') C) ''cyan'' = None \<and>
   script (filter (\<lambda>(name, col). name \<noteq> ''cyan'') C) = None"
proof -
  have r: "''cyan'' \<in> set referenced" by (simp add: referenced_def)
  have l: "lookup (filter (\<lambda>(name, col). name \<noteq> ''cyan'') C) ''cyan'' = None"
    by (simp add: lookup_def C_def)
  from unregistered_name_aborts_batch [of "''cyan''" "filter (\<lambda>(name, col). name \<noteq> ''cyan'') C"] r l
  show ?thesis by blast
qed

text \<open>
  Claim C7. \<^verbatim>\<open>make_sprite\<close> never fails and returns a grid of exactly 32 rows of 32 cells.
  A cell inside the canvas shows the colour its coordinate has in the dictionary, or the
  transparent fill; an entry whose coordinate is outside \<open>0 \<le> x, y < 32\<close> leaves the image
  as it is, so the image is the one made from the in-canvas entries alone. The eight images
  of a run with the palette \<^const>\<open>C\<close> all have this size.
\<close>

theorem make_sprite_canvas:
  assumes "distinct (map fst pixels_map)"
  shows "(\<exists>img. make_sprite pixels_map T = Some img \<and>
            length img = 32 \<and> list_all (\<lambda>row. length row = 32) img \<and>
            (\<forall>p. in_canvas p \<longrightarrow>
               getpixel img p = (case map_of pixels_map p of Some c \<Rightarrow> c | None \<Rightarrow> T)) \<and>
            make_sprite (filter (\<lambda>e. in_canvas (fst e)) pixels_map) T = Some img) \<and>
         (\<exists>imgs. script C = Some imgs \<and> length imgs = 8 \<and> list_all canvas32 imgs)"
proof -
  from for_each_raster[OF canvas32_new, of pixels_map T] obtain img where
    m: "for_each pixels_map raster (Image_new 32 32 T) = Some img" and c: "canvas32 img" and
    px: "\<And>p. in_canvas p \<Longrightarrow> getpixel img p =
           (case map_of (rev pixels_map) p of Some c \<Rightarrow> c | None \<Rightarrow> getpixel (Image_new 32 32 T) p)"
    by blast
  have "getpixel img p = (case map_of pixels_map p of Some c \<Rightarrow> c | None \<Rightarrow> T)" if "in_canvas p" for p
    using px[OF that] that assms by (simp add: map_of_rev_distinct getpixel_new split: option.splits)
  moreover have "make_sprite (filter (\<lambda>e. in_canvas (fst e)) pixels_map) T = Some img"
    using m by (simp add: make_sprite_raster for_each_raster_filter)
  ultimately show ?thesis
    using m c script_C by (simp add: make_sprite_raster canvas32_def)
qed

theorem make_sprite_canvas_witness:
  "distinct (map fst ([((0, 0), RGBA 1 1 1 255), ((32, 5), RGBA 2 2 2 255), ((3, - 1), RGBA 3 3 3 255)] :: pixel_dict)) \<and>
   (\<exists>img. make_sprite [((0, 0), RGBA 1 1 1 255), ((32, 5), RGBA 2 2 2 255), ((3, - 1), RGBA 3 3 3 255)]
             (RGBA 0 0 0 0) = Some img \<and>
      length img = 32 \<and>
      getpixel img (0, 0) = RGBA 1 1 1 255 \<and>
      getpixel img (31, 5) = RGBA 0 0 0 0 \<and>
      getpixel img (3, 0) = RGBA 0 0 0 0 \<and>
      make_sprite [((0, 0), RGBA 1 1 1 255)] (RGBA 0 0 0 0) = Some img)"
proof -
  let ?pm = "[((0, 0), RGBA 1 1 1 255), ((32, 5), RGBA 2 2 2 255), ((3, - 1), RGBA 3 3 3 255)] :: pixel_dict"
  have d: "distinct (map fst ?pm)" by simp
  from make_sprite_canvas[OF d, of "RGBA 0 0 0 0"] obtain img where
    m: "make_sprite ?pm (RGBA 0 0 0 0) = Some img" and l: "length img = 32" and
    px: "\<And>p. in_canvas p \<Longrightarrow>
           getpixel img p = (case map_of ?pm p of Some c \<Rightarrow> c | None \<Rightarrow> RGBA 0 0 0 0)" and
    f: "make_sprite (filter (\<lambda>e. in_canvas (fst e)) ?pm) (RGBA 0 0 0 0) = Some img"
    by blast
  have "getpixel img (0, 0) = RGBA 1 1 1 255" "getpixel img (31, 5) = RGBA 0 0 0 0"
    "getpixel img (3, 0) = RGBA 0 0 0 0"
    by (simp_all add: px in_canvas_def)
  moreover have "make_sprite [((0, 0), RGBA 1 1 1 255)] (RGBA 0 0 0 0) = Some img"
    using f by (simp add: in_canvas_def)
  ultimately show ?thesis using d m l by blast
qed

section \<open>Determinism\<close>

lemma outline_eligible_cong: "set bs1 = set bs2 \<Longrightarrow> outline_eligible bs1 p = outline_eligible bs2 p"
  by (simp add: outline_eligible_def)

lemma composite_distinct:
  "distinct (map fst (body s)) \<Longrightarrow> distinct (map fst (composite s B))"
  by (simp add: composite_def dict_update_distinct draw_outline_distinct)

lemma make_sprite_map_of:
  assumes "distinct (map fst pm1)" and "distinct (map fst pm2)" and "map_of pm1 = map_of pm2"
  shows "make_sprite pm1 T = make_sprite pm2 T"
proof -
  from for_each_raster[OF canvas32_new, of pm1 T] obtain i1 where
    m1: "make_sprite pm1 T = Some i1" and c1: "canvas32 i1" and
    p1: "\<And>p. in_canvas p \<Longrightarrow> getpixel i1 p =
           (case map_of (rev pm1) p of Some c \<Rightarrow> c | None \<Rightarrow> getpixel (Image_new 32 32 T) p)"
    by (auto simp: make_sprite_raster)
  from for_each_raster[OF canvas32_new, of pm2 T] obtain i2 where
    m2: "make_sprite pm2 T = Some i2" and c2: "canvas32 i2" and
    p2: "\<And>p. in_canvas p \<Longrightarrow> getpixel i2 p =
           (case map_of (rev pm2) p of Some c \<Rightarrow> c | None \<Rightarrow> getpixel (Image_new 32 32 T) p)"
    by (auto simp: make_sprite_raster)
  have same: "getpixel i1 p = getpixel i2 p" if "in_canvas p" for p
    using p1[OF that] p2[OF that] assms by (simp add: map_of_rev_distinct)
  have "i1 = i2"
  proof (rule nth_equalityI)
    show "length i1 = length i2" using c1 c2 by (simp add: canvas32_def)
    fix i assume i: "i < length i1"
    then have i32: "i < 32" using c1 by (simp add: canvas32_def)
    show "i1 ! i = i2 ! i"
    proof (rule nth_equalityI)
      show "length (i1 ! i) = length (i2 ! i)"
        using c1 c2 i32 by (simp add: canvas32_row)
      fix j assume "j < length (i1 ! i)"
      then have j32: "j < 32" using c1 i32 by (simp add: canvas32_row)
      have "in_canvas (int j, int i)" using i32 j32 by (simp add: in_canvas_def)
      from same[OF this] show "i1 ! i ! j = i2 ! i ! j" by (simp add: getpixel_def)
    qed
  qed
  with m1 m2 show ?thesis by simp
qed

text \<open>
  Claim C8. Nothing in a generation is random: the model is a function of the palette. The
  one order the language leaves open is that in which \<^verbatim>\<open>draw_outline\<close> iterates over the
  set \<^verbatim>\<open>body_set\<close>, and the result does not depend on it: two runs that differ only in
  that order composite the same mapping from coordinates to colours and rasterize the same
  image.
\<close>

theorem generation_deterministic:
  assumes "distinct (map fst (body s))" and "body s' = body s" and "set (body_set s') = set (body_set s)"
  shows "map_of (composite s' B) = map_of (composite s B) \<and>
         make_sprite (composite s' B) T = make_sprite (composite s B) T"
proof -
  have d: "distinct (map fst (body s'))" using assms by simp
  have m: "map_of (composite s' B) = map_of (composite s B)"
  proof
    fix p
    show "map_of (composite s' B) p = map_of (composite s B) p"
      using assms d outline_eligible_cong[OF assms(3), of p]
      by (simp add: composite_map)
  qed
  moreover have "make_sprite (composite s' B) T = make_sprite (composite s B) T"
    using assms(1) d m by (intro make_sprite_map_of composite_distinct)
  ultimately show ?thesis by simp
qed

theorem generation_deterministic_witness:
  "distinct (map fst (body \<lparr>body = [((5, 5), RGBA 1 1 1 255), ((6, 5), RGBA 1 1 1 255)],
                            body_set = [(5, 5), (6, 5)]\<rparr>)) \<and>
   set [(6, 5), (5, 5)] = set [(5, 5), (6 :: int, 5 :: int)] \<and>
   composite \<lparr>body = [((5, 5), RGBA 1 1 1 255), ((6, 5), RGBA 1 1 1 255)], body_set = [(6, 5), (5, 5)]\<rparr>
       (RGBA 0 0 0 255) \<noteq>
   composite \<lparr>body = [((5, 5), RGBA 1 1 1 255), ((6, 5), RGBA 1 1 1 255)], body_set = [(5, 5), (6, 5)]\<rparr>
       (RGBA 0 0 0 255) \<and>
   make_sprite (composite \<lparr>body = [((5, 5), RGBA 1 1 1 255), ((6, 5), RGBA 1 1 1 255)],
                            body_set = [(6, 5), (5, 5)]\<rparr> (RGBA 0 0 0 255)) (RGBA 0 0 0 0) =
   make_sprite (composite \<lparr>body = [((5, 5), RGBA 1 1 1 255), ((6, 5), RGBA 1 1 1 255)],
                            body_set = [(5, 5), (6, 5)]\<rparr> (RGBA 0 0 0 255)) (RGBA 0 0 0 0)"
proof -
  let ?s = "\<lparr>body = [((5, 5), RGBA 1 1 1 255), ((6, 5), RGBA 1 1 1 255)], body_set = [(5, 5), (6, 5)]\<rparr>"
  let ?s' = "\<lparr>body = [((5, 5), RGBA 1 1 1 255), ((6, 5), RGBA 1 1 1 255)], body_set = [(6, 5), (5, 5)]\<rparr>"
  have d: "distinct (map fst (body ?s))" by simp
  have b: "body ?s' = body ?s" by simp
  have e: "set (body_set ?s') = set (body_set ?s)" by auto
  have ne: "composite ?s' (RGBA 0 0 0 255) \<noteq> composite ?s (RGBA 0 0 0 255)"
    by (simp add: composite_def dict_update_def draw_outline_def outline_around_def outline_at_def)
  from generation_deterministic[OF d b e, of "RGBA 0 0 0 255" "RGBA 0 0 0 0"] d e ne
  show ?thesis by simp
qed

section \<open>The two twins of racecondition\<close>

lemma twin1_paint: "Paint k v \<in> set twin1_log \<longleftrightarrow>
    (v = named ''blue'' \<and> 8 \<le> snd k \<and> snd k < 24 \<and>
     13 - twin1_w (snd k) div 2 \<le> fst k \<and> fst k < 13 + twin1_w (snd k) div 2)"
  by (cases k) (auto simp: twin1_log_def in_rows_log twin1_cell_def)

lemma twin2_paint: "Paint k v \<in> set (twin2_log K) \<longleftrightarrow>
    (v = (if k \<in> K then named ''cyan'' else named ''light_blue'') \<and> 9 \<le> snd k \<and> snd k < 25 \<and>
     19 - twin2_w (snd k) div 2 \<le> fst k \<and> fst k < 19 + twin2_w (snd k) div 2)"
  by (cases k) (auto simp: twin2_log_def in_rows_log twin2_cell_def)

definition in_twin1 :: "coord \<Rightarrow> bool" where
  "in_twin1 k = (8 \<le> snd k \<and> snd k < 24 \<and>
     13 - twin1_w (snd k) div 2 \<le> fst k \<and> fst k < 13 + twin1_w (snd k) div 2)"

definition in_twin2 :: "coord \<Rightarrow> bool" where
  "in_twin2 k = (9 \<le> snd k \<and> snd k < 25 \<and>
     19 - twin2_w (snd k) div 2 \<le> fst k \<and> fst k < 19 + twin2_w (snd k) div 2)"

lemma twin1_keys: "fst ` set (body (replay twin1_log new_sprite)) = {k. in_twin1 k}"
  by (simp add: replay_new_keys twin1_paint in_twin1_def)

lemma twin2_keys: "fst ` set (body (replay (twin2_log K) new_sprite)) = {k. in_twin2 k}"
  by (simp add: replay_new_keys twin2_paint in_twin2_def)

lemma racecondition_fill_map:
  "map_of (body (replay racecondition_fill_log new_sprite)) k =
     (if in_twin1 k \<and> in_twin2 k then Some (named ''cyan'')
      else if in_twin2 k then Some (named ''light_blue'')
      else if in_twin1 k then Some (named ''blue'')
      else None)"
proof -
  let ?K = "{k. \<exists>v. Paint k v \<in> set twin1_log}"
  have K: "k \<in> ?K \<longleftrightarrow> in_twin1 k" by (simp add: twin1_paint in_twin1_def)
  have split: "replay racecondition_fill_log new_sprite = replay (twin2_log ?K) (replay twin1_log new_sprite)"
    by (simp add: racecondition_fill_log_def replay_append)
  show ?thesis
  proof (cases "in_twin2 k")
    case True
    have "map_of (body (replay (twin2_log ?K) (replay twin1_log new_sprite))) k =
        Some (if k \<in> ?K then named ''cyan'' else named ''light_blue'')"
      using True by (intro map_replay_same) (simp_all add: twin2_paint in_twin2_def)
    then show ?thesis using True K by (simp add: split)
  next
    case False
    then have "map_of (body (replay (twin2_log ?K) (replay twin1_log new_sprite))) k =
        map_of (body (replay twin1_log new_sprite)) k"
      by (intro map_replay_other) (simp add: twin2_paint in_twin2_def)
    also have "\<dots> = (if in_twin1 k then Some (named ''blue'') else None)"
    proof (cases "in_twin1 k")
      case True
      have "map_of (body (replay twin1_log new_sprite)) k = Some (named ''blue'')"
        using True by (intro map_replay_same) (simp_all add: twin1_paint in_twin1_def)
      then show ?thesis using True by simp
    next
      case False
      then have "map_of (body (replay twin1_log new_sprite)) k = map_of (body new_sprite) k"
        by (intro map_replay_other) (simp add: twin1_paint in_twin1_def)
      then show ?thesis using False by (simp add: new_sprite_def)
    qed
    finally show ?thesis using False by (simp add: split)
  qed
qed

text \<open>
  Claim C10. In the fill of \<^verbatim>\<open>racecondition\<close>, a coordinate written by both twin passes
  holds cyan, one written by the second pass only holds light blue, one written by the first
  pass only holds blue, and no other coordinate is written. The coordinates of a pass are
  the keys it leaves when run on an empty sprite; the passes do overlap, at \<open>(15, 9)\<close> for
  one.
\<close>

theorem racecondition_blend:
  "\<exists>s1 s2 f.
     racecondition_twin1 C new_sprite = Some s1 \<and>
     racecondition_twin2 C new_sprite = Some s2 \<and>
     racecondition_fill C new_sprite = Some f \<and>
     (\<forall>p. map_of (body f) p =
        (if p \<in> fst ` set (body s1) \<and> p \<in> fst ` set (body s2) then lookup C ''cyan''
         else if p \<in> fst ` set (body s2) then lookup C ''light_blue''
         else if p \<in> fst ` set (body s1) then lookup C ''blue''
         else None)) \<and>
     (15, 9) \<in> fst ` set (body s1) \<and> (15, 9) \<in> fst ` set (body s2) \<and>
     (17, 9) \<notin> fst ` set (body s1) \<and> (17, 9) \<in> fst ` set (body s2) \<and>
     (9, 9) \<in> fst ` set (body s1) \<and> (9, 9) \<notin> fst ` set (body s2)"
proof (intro exI conjI)
  show "racecondition_twin1 C new_sprite = Some (replay twin1_log new_sprite)"
    by (rule racecondition_twin1_replay)
  show "racecondition_twin2 C new_sprite = Some (replay (twin2_log (fst ` set (body new_sprite))) new_sprite)"
    by (rule racecondition_twin2_replay)
  show "racecondition_fill C new_sprite = Some (replay racecondition_fill_log new_sprite)"
    by (rule racecondition_fill_replay)
  show "\<forall>p. map_of (body (replay racecondition_fill_log new_sprite)) p =
        (if p \<in> fst ` set (body (replay twin1_log new_sprite)) \<and>
            p \<in> fst ` set (body (replay (twin2_log (fst ` set (body new_sprite))) new_sprite))
         then lookup C ''cyan''
         else if p \<in> fst ` set (body (replay (twin2_log (fst ` set (body new_sprite))) new_sprite))
         then lookup C ''light_blue''
         else if p \<in> fst ` set (body (replay twin1_log new_sprite)) then lookup C ''blue''
         else None)"
    by (simp add: racecondition_fill_map twin1_keys twin2_keys lookup_C)
qed (simp_all add: twin1_keys twin2_keys in_twin1_def in_twin2_def twin1_w_def twin2_w_def)

section \<open>The fill tests no bound\<close>

lemma typemismatch_pixel_writes:
  "\<exists>col. typemismatch_pixel C cx x y s =
       Some (mark (if y mod 5 = 0 then x + (if x < cx then 1 else - 1) else x, y)
              (paint (if y mod 5 = 0 then x + (if x < cx then 1 else - 1) else x, y) col s))"
  by (auto simp: typemismatch_pixel_def lookup_C Let_def)

lemma mark_paint_holds:
  "p \<in> fst ` set (body (mark p (paint p col s))) \<and> p \<in> set (body_set (mark p (paint p col s)))"
  by (simp add: mark_def paint_def dom_update)

text \<open>
  The fill itself tests no bound. The inner loop body of \<^verbatim>\<open>typemismatch\<close>, run on a
  candidate outside the canvas, stores and records the coordinate all the same.
\<close>

theorem fill_drop_counterexample:
  "\<not> in_canvas (40, 7) \<and>
   (\<exists>s. typemismatch_pixel C 16 40 7 new_sprite = Some s \<and>
        (40, 7) \<in> fst ` set (body s) \<and> (40, 7) \<in> set (body_set s))"
  by (simp add: in_canvas_def typemismatch_pixel_def lookup_C mark_def paint_def new_sprite_def)

text \<open>
  Claim C5, as the code has it. A shape fill writes every candidate coordinate, shifted or
  not, into \<^verbatim>\<open>body\<close> and records it in \<^verbatim>\<open>body_set\<close>, whether or not it lies inside the
  canvas: the loop body of \<^verbatim>\<open>typemismatch\<close> does so for every \<open>x\<close>, \<open>y\<close> and centre, and the
  pair of statements \<^verbatim>\<open>body[p] = col; body_set.add(p)\<close> that every fill ends in does so for
  every \<open>p\<close>. What keeps coordinates outside the canvas out of both structures is the
  shapes: for each of the eight generators as shipped, neither the sprite its fill leaves
  nor the sprite after its overlay statements holds such a coordinate. Dropping happens
  later, in \<^verbatim>\<open>draw_outline\<close> and \<^verbatim>\<open>make_sprite\<close>.
\<close>

theorem fill_has_no_bounds_test:
  "(\<exists>col. typemismatch_pixel C cx x y s =
       Some (mark (if y mod 5 = 0 then x + (if x < cx then 1 else - 1) else x, y)
              (paint (if y mod 5 = 0 then x + (if x < cx then 1 else - 1) else x, y) col s))) \<and>
   p \<in> fst ` set (body (mark p (paint p col' s))) \<and>
   p \<in> set (body_set (mark p (paint p col' s))) \<and>
   (\<exists>f s. nullpointer_fill C new_sprite = Some f \<and> no_outside f \<and>
          nullpointer_body C = Some s \<and> no_outside s) \<and>
   (\<exists>f s. typemismatch_fill C new_sprite = Some f \<and> no_outside f \<and>
          typemismatch_body C B = Some s \<and> no_outside s) \<and>
   (\<exists>f s. offbyone_fill C new_sprite = Some f \<and> no_outside f \<and>
          offbyone_body C = Some s \<and> no_outside s) \<and>
   (\<exists>f s. stackoverflow_fill C new_sprite = Some f \<and> no_outside f \<and>
          stackoverflow_body C = Some s \<and> no_outside s) \<and>
   (\<exists>f s. racecondition_fill C new_sprite = Some f \<and> no_outside f \<and>
          racecondition_body C = Some s \<and> no_outside s) \<and>
   (\<exists>f s. memoryleak_fill C new_sprite = Some f \<and> no_outside f \<and>
          memoryleak_body C = Some s \<and> no_outside s) \<and>
   (\<exists>f s. deadlock_fill C new_sprite = Some f \<and> no_outside f \<and>
          deadlock_body C = Some s \<and> no_outside s) \<and>
   (\<exists>f s. heisenbug_fill C new_sprite = Some f \<and> no_outside f \<and>
          heisenbug_body C = Some s \<and> no_outside s)"
  using typemismatch_pixel_writes[of cx x y s] mark_paint_holds[of p col' s]
    shipped_sprites_inside[of B]
  by (intro conjI) blast+

theorem fill_has_no_bounds_test_witness:
  "\<not> in_canvas (- 3, 10) \<and>
   (\<exists>col. typemismatch_pixel C 16 (- 4) 10 new_sprite =
       Some (mark (- 3, 10) (paint (- 3, 10) col new_sprite))) \<and>
   (- 3, 10) \<in> set (body_set (mark (- 3, 10) (paint (- 3, 10) (RGBA 244 71 71 255) new_sprite))) \<and>
   \<not> in_canvas (32, 10) \<and>
   (\<exists>f. typemismatch_fill C new_sprite = Some f \<and>
        (32, 10) \<notin> fst ` set (body f) \<and> (32, 10) \<notin> set (body_set f))"
proof -
  note t = fill_has_no_bounds_test [of 16 "- 4" 10 new_sprite "(- 3, 10)" "RGBA 244 71 71 255"
      "RGBA 0 0 0 255"]
  from t have a: "\<exists>col. typemismatch_pixel C 16 (- 4) 10 new_sprite =
       Some (mark (- 3, 10) (paint (- 3, 10) col new_sprite))" by simp
  from t have b: "(- 3, 10) \<in> set (body_set (mark (- 3, 10) (paint (- 3, 10) (RGBA 244 71 71 255) new_sprite)))"
    by blast
  from t obtain f where f: "typemismatch_fill C new_sprite = Some f" and n: "no_outside f" by blast
  have o: "\<not> in_canvas (- 3, 10)" "\<not> in_canvas (32, 10)" by (simp_all add: in_canvas_def)
  from n o have "(32, 10) \<notin> fst ` set (body f) \<and> (32, 10) \<notin> set (body_set f)"
    unfolding no_outside_def by blast
  with a b f o show ?thesis by blast
qed

section \<open>The colours of the fills\<close>




lemma named_distinct:
  "distinct [named ''transparent'', named ''black'', named ''dark_bg'', named ''red'', named ''dark_red'',
     named ''orange'', named ''yellow'', named ''green'', named ''dark_green'', named ''light_green'',
     named ''blue'', named ''dark_blue'', named ''light_blue'', named ''purple'', named ''dark_purple'',
     named ''magenta'', named ''white'', named ''gray'', named ''dark_gray'', named ''brown'',
     named ''dark_brown'', named ''cyan'', named ''dark_cyan'']"
  by (simp add: named_def lookup_def C_def)































section \<open>The shifted rows of typemismatch\<close>









section \<open>The set handed to the outline\<close>






























end
